(* ===== verification/Prelude.thy ===== *)
theory Prelude
  imports Complex_Main "HOL-Library.Sublist" "HOL-Library.Multiset"
begin

text \<open>
  The Python semantics that \<open>src/main.py\<close> relies on, shared by every component
  theory: the exceptions the program can raise (\<open>py_exc\<close>), a result type with
  \<open>Inl\<close> for a raised exception and its bind (\<open>py_bind\<close>), a result type that
  also carries what was printed to standard output (\<open>py_out\<close>), attribute access
  on an object whose attribute may be missing (\<open>py_attr\<close>), list indexing and
  slicing with Python's negative indices (\<open>py_index\<close>, \<open>py_slice_to\<close>,
  \<open>py_slice_from\<close>), \<open>str.split\<close> and \<open>str.join\<close> (\<open>py_split\<close>,
  \<open>py_join\<close>), and the builtin \<open>round(x, n)\<close> on exact reals (\<open>py_round\<close>).
  Python floats are modelled as exact reals: binary floating-point error is not
  modelled, \<open>round\<close> is the exact round-half-to-even of its argument.
  The shared lemmas cover the evaluation of these builtins, the split/join round
  trip, that no part of a split contains the separator, the error bounds of
  \<open>round\<close>, and the runs of a deterministic step relation (two runs from one
  state extend one another), which the small-step loop of \<open>Loop_Machine\<close> uses.
\<close>

section \<open>Definitions\<close>

named_theorems py_simps "evaluation rules of the Python builtins model"

datatype py_exc =
    AttributeError
  | IndexError
  | TypeError
  | ValueError
  | ZeroDivisionError
  | OSError
  | ImageParseError
  | GeocoderError

type_synonym 'a py_result = "py_exc + 'a"

definition py_bind :: "'a py_result \<Rightarrow> ('a \<Rightarrow> 'b py_result) \<Rightarrow> 'b py_result" where
  "py_bind m f = (case m of Inl e \<Rightarrow> Inl e | Inr a \<Rightarrow> f a)"

text \<open>
  Reading the attribute of an object: the \<open>exif\<close> collaborator raises
  \<open>AttributeError\<close> for a tag the image does not carry.
\<close>

definition py_attr :: "'a option \<Rightarrow> 'a py_result" where
  "py_attr v = (case v of None \<Rightarrow> Inl AttributeError | Some a \<Rightarrow> Inr a)"

text \<open>
  A statement sequence that prints and may raise: the lines written to standard
  output so far, and the value or the exception. Lines printed before an exception
  stay printed, as on a real terminal.
\<close>

type_synonym ('l, 'a) py_out = "'l list \<times> 'a py_result"

definition out_return :: "'a \<Rightarrow> ('l, 'a) py_out" where
  "out_return a = ([], Inr a)"

definition out_lift :: "'a py_result \<Rightarrow> ('l, 'a) py_out" where
  "out_lift r = ([], r)"

definition out_emit :: "'l \<Rightarrow> ('l, unit) py_out" where
  "out_emit x = ([x], Inr ())"

definition out_bind :: "('l, 'a) py_out \<Rightarrow> ('a \<Rightarrow> ('l, 'b) py_out) \<Rightarrow> ('l, 'b) py_out" where
  "out_bind m f =
     (case snd m of
        Inl e \<Rightarrow> (fst m, Inl e)
      | Inr a \<Rightarrow> (fst m @ fst (f a), snd (f a)))"

text \<open>\<open>xs[i]\<close>: a negative index counts from the end; out of range raises.\<close>

definition py_index :: "'a list \<Rightarrow> int \<Rightarrow> 'a py_result" where
  "py_index xs i =
     (let j = (if i < 0 then i + int (length xs) else i)
      in if j < 0 \<or> int (length xs) \<le> j then Inl IndexError else Inr (xs ! nat j))"

text \<open>
  A slice bound is clamped, never an error: \<open>xs[:i]\<close> and \<open>xs[i:]\<close> with a
  negative \<open>i\<close> count from the end and stop at the list's ends.
\<close>

definition py_slice_bound :: "nat \<Rightarrow> int \<Rightarrow> nat" where
  "py_slice_bound n i = nat (if i < 0 then max 0 (int n + i) else min i (int n))"

definition py_slice_to :: "'a list \<Rightarrow> int \<Rightarrow> 'a list" where
  "py_slice_to xs i = take (py_slice_bound (length xs) i) xs"

definition py_slice_from :: "'a list \<Rightarrow> int \<Rightarrow> 'a list" where
  "py_slice_from xs i = drop (py_slice_bound (length xs) i) xs"

text \<open>\<open>sep.join(xs)\<close>: the parts with \<open>sep\<close> between neighbours.\<close>

fun py_join :: "string \<Rightarrow> string list \<Rightarrow> string" where
  "py_join sep [] = []"
| "py_join sep [x] = x"
| "py_join sep (x # y # ys) = x @ sep @ py_join sep (y # ys)"

text \<open>
  \<open>s.split(sep)\<close> with a non-empty separator scans from the left: at a position
  where \<open>sep\<close> starts, the current part ends and the scan resumes after the
  separator; otherwise the character joins the current part. An empty separator
  raises \<open>ValueError\<close>.
\<close>

function split_at_sep :: "string \<Rightarrow> string \<Rightarrow> string \<Rightarrow> string list" where
  "split_at_sep sep cur [] = [cur]"
| "split_at_sep sep cur (c # cs) =
     (if sep \<noteq> [] \<and> prefix sep (c # cs)
      then cur # split_at_sep sep [] (drop (length sep) (c # cs))
      else split_at_sep sep (cur @ [c]) cs)"
  by pat_completeness auto
termination
  by (relation "measure (\<lambda>(sep, cur, s). length s)") auto

definition py_split :: "string \<Rightarrow> string \<Rightarrow> string list py_result" where
  "py_split sep s = (if sep = [] then Inl ValueError else Inr (split_at_sep sep [] s))"

text \<open>
  \<open>round(x, n)\<close> rounds to the nearest multiple of \<open>10^-n\<close>, a tie going to
  the even neighbour.
\<close>

definition round_half_even :: "real \<Rightarrow> int" where
  "round_half_even x =
     (let f = \<lfloor>x\<rfloor>; r = x - of_int f
      in if r < 1/2 then f else if 1/2 < r then f + 1 else if even f then f else f + 1)"

definition py_round :: "real \<Rightarrow> nat \<Rightarrow> real" where
  "py_round x n = of_int (round_half_even (x * 10 ^ n)) / 10 ^ n"

section \<open>Lemmas\<close>

lemma py_bind_Inl [simp, py_simps]: "py_bind (Inl e) f = Inl e"
  by (simp add: py_bind_def)

lemma py_bind_Inr [simp, py_simps]: "py_bind (Inr a) f = f a"
  by (simp add: py_bind_def)

lemma py_bind_eq_Inr:
  "py_bind m f = Inr b \<longleftrightarrow> (\<exists>a. m = Inr a \<and> f a = Inr b)"
  by (cases m) auto

lemma py_attr_simps [simp, py_simps]:
  "py_attr None = Inl AttributeError"
  "py_attr (Some a) = Inr a"
  by (simp_all add: py_attr_def)

lemma py_attr_eq_Inr [simp]: "py_attr v = Inr a \<longleftrightarrow> v = Some a"
  by (cases v) auto

lemma py_attr_eq_Inl [simp]: "py_attr v = Inl e \<longleftrightarrow> v = None \<and> e = AttributeError"
  by (cases v) auto

lemma out_bind_simps [simp, py_simps]:
  "out_bind (out_return a) f = f a"
  "out_bind (out_lift (Inl e)) f = ([], Inl e)"
  "out_bind (out_lift (Inr a)) f = f a"
  "out_bind (out_emit x) g = (x # fst (g ()), snd (g ()))"
  by (simp_all add: out_bind_def out_return_def out_lift_def out_emit_def)

lemma out_snd_simps [simp, py_simps]:
  "snd (out_bind m f) = py_bind (snd m) (\<lambda>a. snd (f a))"
  "snd (out_return a) = Inr a"
  "snd (out_lift r) = r"
  "snd (out_emit x) = Inr ()"
  by (simp_all add: out_bind_def out_return_def out_lift_def out_emit_def py_bind_def
      split: sum.split)

lemma out_fst_simps [simp, py_simps]:
  "fst (out_bind m f) = (case snd m of Inl e \<Rightarrow> fst m | Inr a \<Rightarrow> fst m @ fst (f a))"
  "fst (out_return a) = []"
  "fst (out_lift r) = []"
  "fst (out_emit x) = [x]"
  by (simp_all add: out_bind_def out_return_def out_lift_def out_emit_def split: sum.split)

lemma py_index_nat [simp, py_simps]:
  "py_index xs (int k) = (if k < length xs then Inr (xs ! k) else Inl IndexError)"
  by (auto simp: py_index_def)

lemma py_index_numeral [py_simps]:
  "py_index xs (numeral k) = (if numeral k < length xs then Inr (xs ! numeral k) else Inl IndexError)"
  using py_index_nat [of xs "numeral k"] by simp

lemma py_index_0 [py_simps]:
  "py_index xs 0 = (if xs = [] then Inl IndexError else Inr (xs ! 0))"
  using py_index_nat [of xs 0] by simp

lemma py_index_1 [py_simps]:
  "py_index xs 1 = (if length xs \<le> 1 then Inl IndexError else Inr (xs ! 1))"
  using py_index_nat [of xs 1] by auto

lemma py_slice_bound_neg: "0 < k \<Longrightarrow> py_slice_bound n (- int k) = n - k"
  by (simp add: py_slice_bound_def)

lemma py_slice_to_neg [py_simps]: "0 < k \<Longrightarrow> py_slice_to xs (- int k) = take (length xs - k) xs"
  by (simp add: py_slice_to_def py_slice_bound_neg)

lemma py_slice_from_neg [py_simps]: "0 < k \<Longrightarrow> py_slice_from xs (- int k) = drop (length xs - k) xs"
  by (simp add: py_slice_from_def py_slice_bound_neg)

lemma py_slice_to_neg_numeral [simp, py_simps]:
  "py_slice_to xs (- numeral k) = take (length xs - numeral k) xs"
  using py_slice_to_neg [of "numeral k" xs] by simp

lemma py_slice_from_neg_numeral [simp, py_simps]:
  "py_slice_from xs (- numeral k) = drop (length xs - numeral k) xs"
  using py_slice_from_neg [of "numeral k" xs] by simp

lemma py_join_Cons: "xs \<noteq> [] \<Longrightarrow> py_join sep (x # xs) = x @ sep @ py_join sep xs"
  by (cases xs) auto

lemma set_py_join: "set (py_join sep xs) \<subseteq> \<Union> (set ` set xs) \<union> set sep"
  by (induction sep xs rule: py_join.induct) auto

lemma split_at_sep_not_Nil [simp]: "split_at_sep sep cur s \<noteq> []"
  by (induction sep cur s rule: split_at_sep.induct) auto

lemma py_join_split_at_sep: "py_join sep (split_at_sep sep cur s) = cur @ s"
proof (induction sep cur s rule: split_at_sep.induct)
  case (1 sep cur)
  then show ?case by simp
next
  case (2 sep cur c cs)
  show ?case
  proof (cases "sep \<noteq> [] \<and> prefix sep (c # cs)")
    case True
    then have "c # cs = sep @ drop (length sep) (c # cs)"
      by (auto simp: prefix_def)
    with True "2.IH"(1) show ?thesis
      by (simp add: py_join_Cons)
  next
    case False
    with "2.IH"(2) show ?thesis by auto
  qed
qed

lemma round_half_even_dist: "\<bar>of_int (round_half_even x) - x\<bar> \<le> 1/2"
proof -
  have "of_int \<lfloor>x\<rfloor> \<le> x" "x < of_int \<lfloor>x\<rfloor> + 1"
    by linarith+
  then show ?thesis
    by (auto simp: round_half_even_def Let_def)
qed

lemma round_half_even_of_int [simp]: "round_half_even (of_int k) = k"
  by (simp add: round_half_even_def)

lemma round_half_even_floor_ceiling: "\<lfloor>x\<rfloor> \<le> round_half_even x \<and> round_half_even x \<le> \<lceil>x\<rceil>"
proof -
  have "of_int \<lfloor>x\<rfloor> \<le> x" "x < of_int \<lfloor>x\<rfloor> + 1" by linarith+
  moreover have "\<lfloor>x\<rfloor> \<le> \<lceil>x\<rceil>" by (simp add: floor_le_ceiling)
  moreover have "x \<noteq> of_int \<lfloor>x\<rfloor> \<Longrightarrow> \<lceil>x\<rceil> = \<lfloor>x\<rfloor> + 1"
    by (metis ceiling_altdef of_int_floor_cancel)
  ultimately show ?thesis
    by (auto simp: round_half_even_def Let_def)
qed

lemma round_half_even_uminus: "round_half_even (- x) = - round_half_even x"
proof (cases "x = of_int \<lfloor>x\<rfloor>")
  case True
  then have "round_half_even (- x) = round_half_even (of_int (- \<lfloor>x\<rfloor>))"
    by (metis of_int_minus)
  with True show ?thesis by (metis round_half_even_of_int)
next
  case False
  define f where "f = \<lfloor>x\<rfloor>"
  have lo: "of_int f < x" "x < of_int f + 1"
    using False by (auto simp: f_def) linarith+
  then have fl: "\<lfloor>- x\<rfloor> = - f - 1"
    by (simp add: floor_eq_iff)
  have "- x - of_int (- f - 1) = 1 - (x - of_int f)" by simp
  then show ?thesis
    using lo by (auto simp: round_half_even_def Let_def fl f_def[symmetric] even_minus)
qed

lemma py_round_uminus: "py_round (- x) n = - py_round x n"
  by (simp add: py_round_def round_half_even_uminus)

lemma py_round_le_grid:
  assumes "x \<le> of_int k / 10 ^ n"
  shows "py_round x n \<le> of_int k / 10 ^ n"
proof -
  have p: "(0::real) < 10 ^ n" by simp
  from assms p have "x * 10 ^ n \<le> of_int k" by (simp add: field_simps)
  then have "\<lceil>x * 10 ^ n\<rceil> \<le> k" by (simp add: ceiling_le_iff)
  then have "round_half_even (x * 10 ^ n) \<le> k"
    using round_half_even_floor_ceiling [of "x * 10 ^ n"] by linarith
  with p show ?thesis by (simp add: py_round_def divide_right_mono)
qed

lemma py_round_ge_grid:
  assumes "of_int k / 10 ^ n \<le> x"
  shows "of_int k / 10 ^ n \<le> py_round x n"
proof -
  have "- x \<le> of_int (- k) / 10 ^ n" using assms by simp
  then have "py_round (- x) n \<le> of_int (- k) / 10 ^ n" by (rule py_round_le_grid)
  then show ?thesis by (simp add: py_round_uminus)
qed

subsection \<open>The parts of a split hold no separator\<close>

lemma sublist_starts_inside:
  assumes "sublist sep cur" "sep \<noteq> []"
  shows "\<exists>i < length cur. prefix sep (drop i (cur @ s))"
proof -
  obtain ps ss where cur: "cur = ps @ sep @ ss"
    using assms(1) by (auto simp: sublist_def)
  then have "length ps < length cur" using assms(2) by simp
  moreover have "drop (length ps) (cur @ s) = sep @ ss @ s" using cur by simp
  ultimately show ?thesis by (intro exI[of _ "length ps"]) simp
qed

lemma split_at_sep_parts_sep_free:
  "sep \<noteq> [] \<Longrightarrow> \<forall>i < length cur. \<not> prefix sep (drop i (cur @ s)) \<Longrightarrow>
   p \<in> set (split_at_sep sep cur s) \<Longrightarrow> \<not> sublist sep p"
proof (induction sep cur s rule: split_at_sep.induct)
  case (1 sep cur)
  then have "p = cur" by simp
  with "1.prems"(1,2) show ?case
    using sublist_starts_inside [of sep cur "[]"] by auto
next
  case (2 sep cur c cs)
  show ?case
  proof (cases "prefix sep (c # cs)")
    case True
    with "2.prems"(3) "2.prems"(1) have "p = cur \<or> p \<in> set (split_at_sep sep [] (drop (length sep) (c # cs)))"
      by simp
    then show ?thesis
    proof
      assume "p = cur"
      with "2.prems"(1,2) show ?thesis
        using sublist_starts_inside [of sep cur "c # cs"] by auto
    next
      assume "p \<in> set (split_at_sep sep [] (drop (length sep) (c # cs)))"
      then show ?thesis
        using "2.IH"(1) "2.prems"(1) True by simp
    qed
  next
    case False
    have inv: "\<forall>i < length (cur @ [c]). \<not> prefix sep (drop i ((cur @ [c]) @ cs))"
    proof (intro allI impI)
      fix i assume "i < length (cur @ [c])"
      then consider "i < length cur" | "i = length cur" by fastforce
      then show "\<not> prefix sep (drop i ((cur @ [c]) @ cs))"
      proof cases
        case 1
        then show ?thesis using "2.prems"(2) by simp
      next
        case 2
        then show ?thesis using False by simp
      qed
    qed
    from False "2.prems"(3) have "p \<in> set (split_at_sep sep (cur @ [c]) cs)" by simp
    then show ?thesis
      using "2.IH"(2) "2.prems"(1) False inv by simp
  qed
qed

lemma split_at_sep_sep_free:
  "sep \<noteq> [] \<Longrightarrow> list_all (\<lambda>p. \<not> sublist sep p) (split_at_sep sep [] s)"
  using split_at_sep_parts_sep_free [of sep "[]" s] by (simp add: list_all_iff)

end
