(* ===== verification/Coordinates.thy ===== *)
theory Coordinates
  imports Prelude
begin

text \<open>
  CoordinateConverter: \<open>decimal_coords(coords, ref)\<close> of \<open>src/main.py\<close> (lines
  31--35), which turns an EXIF degrees/minutes/seconds sequence and a hemisphere
  reference into signed decimal degrees, and the rounding to six decimals that the
  main loop applies to its result (lines 78--79). The coordinate sequence is a
  Python sequence read by index, so a sequence shorter than three raises
  \<open>IndexError\<close>; the reference is a string tested for membership of \<open>S\<close> or
  \<open>W\<close>. The lemmas give the value on every input (the spec's formula and sign
  rule), the error on short input, the symmetry between hemispheres before and after
  rounding, and the bounds that make a rounded latitude a valid latitude.
\<close>

definition south_or_west :: "string \<Rightarrow> bool" where
  "south_or_west ref \<longleftrightarrow> CHR ''S'' \<in> set ref \<or> CHR ''W'' \<in> set ref"

definition decimal_coords :: "real list \<Rightarrow> string \<Rightarrow> real py_result" where
  "decimal_coords coords ref =
     py_bind (py_index coords 0) (\<lambda>c0.
     py_bind (py_index coords 1) (\<lambda>c1.
     py_bind (py_index coords 2) (\<lambda>c2.
       (let dec = c0 + 1 / 60 * c1 + 1 / 3600 * c2
        in Inr (if south_or_west ref then dec * -1 else dec)))))"

text \<open>\<open>round(decimal_coords(coords, ref), 6)\<close>, as lines 78 and 79 call it.\<close>

definition rounded_coord :: "real list \<Rightarrow> string \<Rightarrow> real py_result" where
  "rounded_coord coords ref = py_bind (decimal_coords coords ref) (\<lambda>v. Inr (py_round v 6))"

text \<open>The spec's formula for the magnitude (section 4.1): \<open>d + m/60 + s/3600\<close>.\<close>

definition dms_degrees :: "real \<Rightarrow> real \<Rightarrow> real \<Rightarrow> real" where
  "dms_degrees d m s = d + m / 60 + s / 3600"

lemma decimal_coords_Cons3:
  "decimal_coords (d # m # s # rest) ref =
     Inr (if south_or_west ref then - dms_degrees d m s else dms_degrees d m s)"
  by (simp add: decimal_coords_def dms_degrees_def py_simps)

lemma decimal_coords_cases:
  "length coords < 3 \<or> (\<exists>d m s rest. coords = d # m # s # rest)"
proof (cases "length coords < 3")
  case False
  then have "Suc (Suc (Suc 0)) \<le> length coords" by simp
  then have "\<exists>d m s rest. coords = d # m # s # rest"
    by (auto simp: Suc_le_length_iff)
  then show ?thesis ..
qed simp

lemma decimal_coords_ok:
  assumes "decimal_coords coords ref = Inr v"
  obtains d m s rest where "coords = d # m # s # rest"
    and "v = (if south_or_west ref then - dms_degrees d m s else dms_degrees d m s)"
proof -
  have "\<not> length coords < 3"
  proof
    assume "length coords < 3"
    then have "coords = [] \<or> (\<exists>a. coords = [a]) \<or> (\<exists>a b. coords = [a, b])"
      by (cases coords rule: remdups_adj.cases) auto
    with assms show False
      by (auto simp: decimal_coords_def py_simps)
  qed
  then obtain d m s rest where c: "coords = d # m # s # rest"
    using decimal_coords_cases by blast
  with assms decimal_coords_Cons3 show ?thesis
    by (auto intro: that)
qed

lemmas rounded_coord_eval = rounded_coord_def decimal_coords_Cons3 dms_degrees_def py_round_def
  round_half_even_def south_or_west_def Let_def

lemma dms_degrees_bounds:
  assumes "0 \<le> d" "0 \<le> m" "m \<le> 59" "0 \<le> s" "s < 60"
  shows "d \<le> dms_degrees d m s \<and> dms_degrees d m s < d + 1"
  using assms by (simp add: dms_degrees_def)

text \<open>C23. On a sequence of at least three numbers the converter returns the spec's value: degrees plus minutes over 60 plus seconds over 3600, negated exactly when the reference contains S or W; further elements are ignored.\<close>

lemma decimal_coords_formula:
  "decimal_coords (d # m # s # rest) ref =
     Inr ((if south_or_west ref then -1 else 1) * (d + m / 60 + s / 3600))"
  by (simp add: decimal_coords_Cons3 dms_degrees_def)

text \<open>C24. A coordinate sequence of fewer than three elements makes the converter raise IndexError.\<close>

lemma decimal_coords_short_raises:
  "length coords < 3 \<Longrightarrow> decimal_coords coords ref = Inl IndexError"
  by (cases coords rule: remdups_adj.cases) (auto simp: decimal_coords_def py_simps)

lemma decimal_coords_short_raises_witness:
  "length [40, 26 :: real] < 3 \<and> decimal_coords [40, 26] ''N'' = Inl IndexError"
  using decimal_coords_short_raises [of "[40, 26]" "''N''"] by simp

text \<open>C25. After rounding to six decimals, a coordinate with a south or west reference is the negation of the same coordinate with a north or east reference, and both raise alike: rounding keeps the sign convention symmetric.\<close>

lemma rounded_coord_hemisphere:
  assumes "south_or_west r1" "\<not> south_or_west r2"
  shows "rounded_coord coords r1 = map_sum id uminus (rounded_coord coords r2)"
proof (cases "length coords < 3")
  case True
  then show ?thesis by (simp add: rounded_coord_def decimal_coords_short_raises)
next
  case False
  then obtain d m s rest where "coords = d # m # s # rest"
    using decimal_coords_cases by blast
  with assms show ?thesis
    by (simp add: rounded_coord_def decimal_coords_Cons3 py_round_uminus)
qed

lemma rounded_coord_hemisphere_witness:
  "south_or_west ''S'' \<and> \<not> south_or_west ''N'' \<and>
   rounded_coord [48, 51, 29.6] ''S'' = map_sum id uminus (rounded_coord [48, 51, 29.6] ''N'')"
  using rounded_coord_hemisphere [of "''S''" "''N''" "[48, 51, 29.6]"]
  by (simp add: south_or_west_def)

text \<open>C26. For degrees d with d + 1 at most b, minutes in [0, 59] and seconds in [0, 60), the rounded coordinate exists and its magnitude is at most b; with b = 90 a latitude read from valid EXIF data stays a valid latitude after rounding, and with b = 180 a longitude stays valid.\<close>

lemma rounded_coord_range:
  assumes "0 \<le> d" "d + 1 \<le> of_nat b" "0 \<le> m" "m \<le> 59" "0 \<le> s" "s < 60"
  shows "\<exists>v. rounded_coord (d # m # s # rest) ref = Inr v \<and> \<bar>v\<bar> \<le> of_nat b"
proof -
  let ?x = "dms_degrees d m s"
  have x: "0 \<le> ?x" "?x \<le> of_int (int b * 10 ^ 6) / 10 ^ 6"
    using dms_degrees_bounds [OF assms(1,3-6)] assms(1,2) by simp_all
  have "py_round ?x 6 \<le> of_int (int b * 10 ^ 6) / 10 ^ 6"
    using x(2) by (rule py_round_le_grid)
  moreover have "of_int 0 / 10 ^ 6 \<le> py_round ?x 6"
    using x(1) by (intro py_round_ge_grid) simp
  ultimately have "\<bar>py_round ?x 6\<bar> \<le> of_nat b"
    by simp
  then show ?thesis
    by (simp add: rounded_coord_def decimal_coords_Cons3 py_round_uminus)
qed

lemma rounded_coord_range_witness:
  "(0::real) \<le> 89 \<and> (89::real) + 1 \<le> of_nat 90 \<and> (0::real) \<le> 59 \<and> (59::real) \<le> 59 \<and>
   (0::real) \<le> 59.9 \<and> (59.9::real) < 60 \<and>
   (\<exists>v. rounded_coord [89, 59, 59.9] ''N'' = Inr v \<and> \<bar>v\<bar> \<le> of_nat 90)"
  using rounded_coord_range [of 89 90 59 "59.9" "[]" "''N''"] by simp

end
