(* ===== verification/Extractor.thy ===== *)
theory Extractor
  imports Coordinates
begin

text \<open>
  ImageRecordExtractor: what \<open>main()\<close> of \<open>src/main.py\<close> does with one opened
  image inside its second \<open>try\<close> block (lines 72--101). The collaborators are
  modelled as data: the \<open>exif.Image\<close> object is a record whose attributes may be
  missing (reading a missing one raises \<open>AttributeError\<close>), the Nominatim
  reverse geocoder is a function from a coordinate pair to a reply that may raise
  or be \<open>None\<close>, and standard output is the list of lines printed. The per-file
  outcome \<open>extract\<close> is the spec's contract (section 4.2); the lemmas give the
  outcome on every branch: success, no EXIF block, a missing attribute, a failed
  geocode.
\<close>

section \<open>Collaborators\<close>

record exif_image =
  has_exif :: bool
  pixel_x_dimension :: "nat option"
  pixel_y_dimension :: "nat option"
  gps_latitude :: "real list option"
  gps_latitude_ref :: "string option"
  gps_longitude :: "real list option"
  gps_longitude_ref :: "string option"

text \<open>
  What \<open>open(filename, 'rb')\<close> followed by \<open>Image(src)\<close> meets on disk: a path
  that cannot be opened, a file that opens but is no image container, or an image.
\<close>

datatype file_entry = Unopenable | Unparseable | Image_File exif_image

datatype geo_reply = Geo_Raises | Geo_None | Geo_Location string

type_synonym geocoder = "real \<Rightarrow> real \<Rightarrow> geo_reply"

text \<open>\<open>Nominatim(user_agent="myApp").reverse([lat, long], language='en')\<close> (line 83).\<close>

definition nominatim_reverse :: "geocoder \<Rightarrow> real \<Rightarrow> real \<Rightarrow> string option py_result" where
  "nominatim_reverse geo lat long =
     (case geo lat long of
        Geo_Raises \<Rightarrow> Inl GeocoderError
      | Geo_None \<Rightarrow> Inr None
      | Geo_Location a \<Rightarrow> Inr (Some a))"

section \<open>Printed lines and records\<close>

datatype log_line =
    Could_Not_Open string
  | Opening string
  | Dimensions nat nat
  | Gps_Longitude "real list" string
  | Gps_Latitude "real list" string
  | Lat_Long real real
  | Address_Line "string option"
  | Blank_Line
  | No_Exif_Info string
  | Exif_Exception string
  | Data_Frame "string list" "real list" "real list" "string list list"

text \<open>One row of the five parallel lists of \<open>main()\<close> (lines 53--57).\<close>

record location_record =
  rec_file :: string
  rec_path :: string
  rec_lat :: real
  rec_long :: real
  rec_addr :: "string list"

text \<open>\<open>filename = folderName + '\\' + f\<close> (line 60).\<close>

definition full_path :: "string \<Rightarrow> string \<Rightarrow> string" where
  "full_path folder f = folder @ CHR 0x5C # f"

section \<open>The EXIF stage\<close>

text \<open>
  Lines 73--97: the body of the \<open>try\<close>. Attributes are read in the order of the
  \<open>print\<close> calls (all arguments of a call before it prints); lines 78--79 read the
  GPS attributes again, which yields the values already read. The record is
  returned where the code appends its fields (lines 88--92); nothing after the
  appends can raise.
\<close>

definition exif_stage ::
  "geocoder \<Rightarrow> string \<Rightarrow> string \<Rightarrow> exif_image \<Rightarrow> (log_line, location_record option) py_out" where
  "exif_stage geo f filename img =
     (if has_exif img then
        out_bind (out_lift (py_attr (pixel_x_dimension img))) (\<lambda>x.
        out_bind (out_lift (py_attr (pixel_y_dimension img))) (\<lambda>y.
        out_bind (out_emit (Dimensions x y)) (\<lambda>_.
        out_bind (out_lift (py_attr (gps_longitude img))) (\<lambda>lon.
        out_bind (out_lift (py_attr (gps_longitude_ref img))) (\<lambda>lon_ref.
        out_bind (out_emit (Gps_Longitude lon lon_ref)) (\<lambda>_.
        out_bind (out_lift (py_attr (gps_latitude img))) (\<lambda>lat.
        out_bind (out_lift (py_attr (gps_latitude_ref img))) (\<lambda>lat_ref.
        out_bind (out_emit (Gps_Latitude lat lat_ref)) (\<lambda>_.
        out_bind (out_lift (rounded_coord lat lat_ref)) (\<lambda>lat_d.
        out_bind (out_lift (rounded_coord lon lon_ref)) (\<lambda>long_d.
        out_bind (out_emit (Lat_Long lat_d long_d)) (\<lambda>_.
        out_bind (out_lift (nominatim_reverse geo lat_d long_d)) (\<lambda>addr.
        out_bind (out_emit (Address_Line addr)) (\<lambda>_.
        out_bind (out_lift (py_attr addr)) (\<lambda>address.
        out_bind (out_lift (py_split '', '' address)) (\<lambda>addrL.
          out_return (Some \<lparr>rec_file = f, rec_path = filename, rec_lat = lat_d,
                             rec_long = long_d, rec_addr = addrL\<rparr>)))))))))))))))))
      else out_bind (out_emit (No_Exif_Info filename)) (\<lambda>_. out_return None))"

section \<open>The per-file outcome\<close>

text \<open>
  The spec's contract for one file (section 4.2): an open error, no EXIF block,
  an exception inside the EXIF stage (the code reports every such exception, a
  failed geocode included, with one message), or a located record.
\<close>

datatype outcome = Open_Error | No_Exif | Exif_Read_Error py_exc | Located location_record

text \<open>
  What the run depends on besides the listing: the folder (line 47), the files
  under it, and the geocoding service.
\<close>

record env =
  folderName :: string
  disk :: "string \<Rightarrow> file_entry"
  reverse_geo :: geocoder

definition extract_photo :: "env \<Rightarrow> string \<Rightarrow> outcome" where
  "extract_photo env f =
     (let filename = full_path (folderName env) f in
      case disk env filename of
        Unopenable \<Rightarrow> Open_Error
      | Unparseable \<Rightarrow> Open_Error
      | Image_File img \<Rightarrow>
          (case snd (exif_stage (reverse_geo env) f filename img) of
             Inl e \<Rightarrow> Exif_Read_Error e
           | Inr None \<Rightarrow> No_Exif
           | Inr (Some r) \<Rightarrow> Located r))"

section \<open>The spec's end-to-end scenario\<close>

text \<open>
  One JPEG with GPS data at the Eiffel tower and a geocoder mock that returns the
  spec's address (section 8; the non-ASCII letter of the region is written in ASCII).
\<close>

definition eiffel_image :: exif_image where
  "eiffel_image =
     \<lparr>has_exif = True, pixel_x_dimension = Some 4032, pixel_y_dimension = Some 3024,
      gps_latitude = Some [48, 51, 29.6], gps_latitude_ref = Some ''N'',
      gps_longitude = Some [2, 17, 40.2], gps_longitude_ref = Some ''E''\<rparr>"

definition eiffel_address :: string where
  "eiffel_address = ''Tour Eiffel, Avenue Anatole France, Paris, Ile-de-France, 75007, France''"

definition eiffel_geocoder :: geocoder where
  "eiffel_geocoder lat long = Geo_Location eiffel_address"

text \<open>A folder \<open>photos\<close> holding one file, \<open>eiffel.jpg\<close>, with the given content.\<close>

definition single_file_env :: "file_entry \<Rightarrow> geocoder \<Rightarrow> env" where
  "single_file_env e g =
     \<lparr>folderName = ''photos'',
      disk = (\<lambda>p. if p = full_path ''photos'' ''eiffel.jpg'' then e else Unopenable),
      reverse_geo = g\<rparr>"

definition eiffel_env :: env where
  "eiffel_env = single_file_env (Image_File eiffel_image) eiffel_geocoder"

section \<open>Lemmas\<close>

lemma nominatim_reverse_simps [simp]:
  "geo lat long = Geo_Raises \<Longrightarrow> nominatim_reverse geo lat long = Inl GeocoderError"
  "geo lat long = Geo_None \<Longrightarrow> nominatim_reverse geo lat long = Inr None"
  "geo lat long = Geo_Location a \<Longrightarrow> nominatim_reverse geo lat long = Inr (Some a)"
  by (simp_all add: nominatim_reverse_def)

lemma nominatim_reverse_eq_Inr:
  "nominatim_reverse geo lat long = Inr r \<longleftrightarrow>
   (geo lat long = Geo_None \<and> r = None) \<or> (\<exists>a. geo lat long = Geo_Location a \<and> r = Some a)"
  by (auto simp: nominatim_reverse_def split: geo_reply.splits)

lemma nominatim_reverse_eq_Inl:
  "nominatim_reverse geo lat long = Inl e \<longleftrightarrow> geo lat long = Geo_Raises \<and> e = GeocoderError"
  by (auto simp: nominatim_reverse_def split: geo_reply.splits)

lemmas extract_unfold = extract_photo_def exif_stage_def Let_def py_split_def

lemma extract_photo_Located_names:
  "extract_photo env f = Located r \<Longrightarrow>
   rec_file r = f \<and> rec_path r = full_path (folderName env) f"
  by (auto simp: extract_unfold py_bind_eq_Inr split: file_entry.splits sum.splits option.splits if_splits)

lemma extract_photo_Located_values:
  "extract_photo env f = Located r \<Longrightarrow>
   (\<exists>u. rec_lat r = py_round u 6) \<and> (\<exists>v. rec_long r = py_round v 6) \<and>
   (\<exists>a. rec_addr r = split_at_sep '', '' [] a)"
  by (auto simp: extract_unfold rounded_coord_def py_bind_eq_Inr
      split: file_entry.splits sum.splits option.splits if_splits)

text \<open>The spec's first scenario evaluated for one file.\<close>

lemma extract_photo_eiffel:
  "extract_photo eiffel_env ''eiffel.jpg'' =
     Located \<lparr>rec_file = ''eiffel.jpg'', rec_path = full_path ''photos'' ''eiffel.jpg'',
              rec_lat = 48.858222, rec_long = 2.2945,
              rec_addr = [''Tour Eiffel'', ''Avenue Anatole France'', ''Paris'',
                          ''Ile-de-France'', ''75007'', ''France'']\<rparr>"
  by (simp add: extract_photo_def eiffel_env_def single_file_env_def eiffel_image_def
      eiffel_geocoder_def eiffel_address_def exif_stage_def rounded_coord_eval py_split_def py_simps)

text \<open>C3. A file yields a located record exactly when it opens as an image with an EXIF block, both pixel dimensions and all four GPS attributes are present, both coordinates convert, and the geocoder returns an address; the record then holds the bare file name, the full path, both coordinates rounded to six decimals and the address split at ", ".\<close>

lemma extract_located:
  "extract_photo env f = Located r \<longleftrightarrow>
   (\<exists>img x y lat lat_ref lon lon_ref la lo a.
      disk env (full_path (folderName env) f) = Image_File img \<and> has_exif img \<and>
      pixel_x_dimension img = Some x \<and> pixel_y_dimension img = Some y \<and>
      gps_latitude img = Some lat \<and> gps_latitude_ref img = Some lat_ref \<and>
      gps_longitude img = Some lon \<and> gps_longitude_ref img = Some lon_ref \<and>
      rounded_coord lat lat_ref = Inr la \<and> rounded_coord lon lon_ref = Inr lo \<and>
      reverse_geo env la lo = Geo_Location a \<and>
      r = \<lparr>rec_file = f, rec_path = full_path (folderName env) f, rec_lat = la,
           rec_long = lo, rec_addr = split_at_sep '', '' [] a\<rparr>)"
  by (auto simp: extract_unfold py_bind_eq_Inr nominatim_reverse_eq_Inr
      split: file_entry.splits sum.splits option.splits)

lemma extract_located_witness:
  "extract_photo eiffel_env ''eiffel.jpg'' =
     Located \<lparr>rec_file = ''eiffel.jpg'', rec_path = full_path ''photos'' ''eiffel.jpg'',
              rec_lat = 48.858222, rec_long = 2.2945,
              rec_addr = [''Tour Eiffel'', ''Avenue Anatole France'', ''Paris'',
                          ''Ile-de-France'', ''75007'', ''France'']\<rparr>"
proof -
  have lat: "rounded_coord [48, 51, 29.6] ''N'' = Inr 48.858222"
    by (simp add: rounded_coord_eval)
  have lon: "rounded_coord [2, 17, 40.2] ''E'' = Inr 2.2945"
    by (simp add: rounded_coord_eval)
  show ?thesis
    unfolding extract_located
    by (simp add: eiffel_env_def single_file_env_def eiffel_geocoder_def eiffel_image_def eiffel_address_def lat [simplified] lon [simplified])
      (rule exI [of _ "24429111 / 500000"], simp, rule exI [of _ "4589 / 2000"], simp)
qed

text \<open>C18. The address list of a record loses nothing: joined back with ", " it is exactly the address the geocoder returned for the record's own rounded coordinates.\<close>

theorem extract_address_roundtrip:
  assumes "extract_photo env f = Located r"
  shows "\<exists>a. reverse_geo env (rec_lat r) (rec_long r) = Geo_Location a \<and> py_join '', '' (rec_addr r) = a"
  using assms
  by (auto simp: extract_unfold py_bind_eq_Inr nominatim_reverse_eq_Inr py_join_split_at_sep
      split: file_entry.splits sum.splits option.splits if_splits)

theorem extract_address_roundtrip_witness:
  "extract_photo eiffel_env ''eiffel.jpg'' =
     Located \<lparr>rec_file = ''eiffel.jpg'', rec_path = full_path ''photos'' ''eiffel.jpg'',
              rec_lat = 48.858222, rec_long = 2.2945,
              rec_addr = [''Tour Eiffel'', ''Avenue Anatole France'', ''Paris'',
                          ''Ile-de-France'', ''75007'', ''France'']\<rparr> \<and>
   (\<exists>a. reverse_geo eiffel_env 48.858222 2.2945 = Geo_Location a \<and>
      py_join '', '' [''Tour Eiffel'', ''Avenue Anatole France'', ''Paris'', ''Ile-de-France'', ''75007'', ''France''] = a)"
  using extract_photo_eiffel extract_address_roundtrip [OF extract_photo_eiffel] by simp

text \<open>C21. The two early outcomes and exactly when they occur: a file gives the open-error outcome exactly when its path cannot be opened or it is no image container, and the no-EXIF outcome exactly when it is an image without an EXIF block.\<close>

lemma extract_early_outcomes:
  "(extract_photo env f = Open_Error \<longleftrightarrow>
      disk env (full_path (folderName env) f) \<in> {Unopenable, Unparseable}) \<and>
   (extract_photo env f = No_Exif \<longleftrightarrow>
      (\<exists>img. disk env (full_path (folderName env) f) = Image_File img \<and> \<not> has_exif img))"
  by (auto simp: extract_unfold py_bind_eq_Inr split: file_entry.splits sum.splits option.splits if_splits)

text \<open>C19. An image with an EXIF block but without a pixel dimension is skipped with an AttributeError, whatever GPS data it carries: the dimensions that the spec calls diagnostic only decide whether the photo is kept.\<close>

lemma extract_missing_dimension:
  assumes "disk env (full_path (folderName env) f) = Image_File img" "has_exif img"
    and "pixel_x_dimension img = None \<or> pixel_y_dimension img = None"
  shows "extract_photo env f = Exif_Read_Error AttributeError"
  using assms by (auto simp: extract_unfold py_attr_def split: option.splits)

text \<open>C22. An image with an EXIF block and both dimensions but without one of the four GPS attributes is skipped with an AttributeError.\<close>

lemma extract_missing_gps:
  assumes "disk env (full_path (folderName env) f) = Image_File img" "has_exif img"
    and "pixel_x_dimension img \<noteq> None" "pixel_y_dimension img \<noteq> None"
    and "gps_latitude img = None \<or> gps_latitude_ref img = None \<or>
         gps_longitude img = None \<or> gps_longitude_ref img = None"
  shows "extract_photo env f = Exif_Read_Error AttributeError"
  using assms by (auto simp: extract_unfold py_attr_def split: option.splits)

text \<open>C20. When the coordinates convert but the geocoder raises or finds no address, the photo is skipped inside the same handler as an EXIF read failure (GeocoderError, or AttributeError on the missing address): the code has no separate geocode-error outcome.\<close>

lemma extract_geocode_failure:
  assumes "disk env (full_path (folderName env) f) = Image_File img" "has_exif img"
    and "pixel_x_dimension img \<noteq> None" "pixel_y_dimension img \<noteq> None"
    and "gps_latitude img = Some lat" "gps_latitude_ref img = Some lat_ref"
    and "gps_longitude img = Some lon" "gps_longitude_ref img = Some lon_ref"
    and "rounded_coord lat lat_ref = Inr la" "rounded_coord lon lon_ref = Inr lo"
    and "reverse_geo env la lo \<in> {Geo_Raises, Geo_None}"
  shows "extract_photo env f =
           Exif_Read_Error (if reverse_geo env la lo = Geo_Raises then GeocoderError else AttributeError)"
  using assms by (auto simp: extract_unfold py_attr_def split: option.splits)

lemma extract_missing_dimension_witness:
  "extract_photo (single_file_env (Image_File (eiffel_image\<lparr>pixel_x_dimension := None\<rparr>)) eiffel_geocoder)
     ''eiffel.jpg'' = Exif_Read_Error AttributeError"
  by (rule extract_missing_dimension [where img = "eiffel_image\<lparr>pixel_x_dimension := None\<rparr>"])
    (simp_all add: single_file_env_def eiffel_image_def)

lemma extract_missing_gps_witness:
  "extract_photo (single_file_env (Image_File (eiffel_image\<lparr>gps_latitude := None\<rparr>)) eiffel_geocoder)
     ''eiffel.jpg'' = Exif_Read_Error AttributeError"
  by (rule extract_missing_gps [where img = "eiffel_image\<lparr>gps_latitude := None\<rparr>"])
    (simp_all add: single_file_env_def eiffel_image_def)

lemma extract_geocode_failure_witness:
  "extract_photo (single_file_env (Image_File eiffel_image) (\<lambda>lat long. Geo_Raises)) ''eiffel.jpg'' =
     Exif_Read_Error GeocoderError"
proof -
  have lat: "rounded_coord [48, 51, 29.6] ''N'' = Inr 48.858222"
    by (simp add: rounded_coord_eval)
  have lon: "rounded_coord [2, 17, 40.2] ''E'' = Inr 2.2945"
    by (simp add: rounded_coord_eval)
  show ?thesis
    using extract_geocode_failure [where env = "single_file_env (Image_File eiffel_image) (\<lambda>lat long. Geo_Raises)"
        and f = "''eiffel.jpg''" and img = eiffel_image, OF _ _ _ _ _ _ _ _ lat lon]
    by (simp add: single_file_env_def eiffel_image_def)
qed

end
