(* ===== verification/Batch.thy ===== *)
theory Batch
  imports Extractor
begin

text \<open>
  BatchCollector: the \<open>for f in folderFileList\<close> loop of \<open>main()\<close> in
  \<open>src/main.py\<close> (lines 52--101). Its state is the five parallel lists of
  lines 53--57, what has been printed, and the file handles opened and not yet closed
  (a multiset of paths). One iteration (\<open>process_file\<close>) opens the file, builds
  the \<open>exif.Image\<close>, closes the file, runs the EXIF stage of the extractor and
  either appends the five fields or prints a diagnostic; the loop (\<open>collect\<close>)
  runs it over the listing in order. The lemmas show that the loop implements the
  spec's batch (section 4.3): its lists are the projections of the located records
  of the listing in order, its diagnostics are one per skipped file in order, every
  file is counted once, and the five lists stay parallel. They also show which file
  handles the loop leaves open, and the shape of what the lists hold: each address a
  non-empty list of parts free of the separator, each coordinate a multiple of
  \<open>10^-6\<close>; the order of the lines printed for a photo that becomes a record, and
  that the loop prints the per-file outputs one after the other in listing order.
\<close>

section \<open>Definitions\<close>

record batch =
  fileFullnameList :: "string list"
  fileList :: "string list"
  latList :: "real list"
  longList :: "real list"
  addrList :: "string list list"
  stdout :: "log_line list"
  open_handles :: "string multiset"

definition batch_init :: batch where
  "batch_init =
     \<lparr>fileFullnameList = [], fileList = [], latList = [], longList = [], addrList = [],
      stdout = [], open_handles = {#}\<rparr>"

definition emit :: "log_line list \<Rightarrow> batch \<Rightarrow> batch" where
  "emit ls st = st\<lparr>stdout := stdout st @ ls\<rparr>"

text \<open>\<open>src = open(filename, 'rb')\<close> and \<open>src.close()\<close> (lines 64 and 66).\<close>

definition open_file :: "string \<Rightarrow> batch \<Rightarrow> batch" where
  "open_file filename st = st\<lparr>open_handles := add_mset filename (open_handles st)\<rparr>"

definition close_file :: "string \<Rightarrow> batch \<Rightarrow> batch" where
  "close_file filename st = st\<lparr>open_handles := open_handles st - {#filename#}\<rparr>"

text \<open>Lines 88--92, one append after the other, in the code's order.\<close>

definition append_record :: "location_record \<Rightarrow> batch \<Rightarrow> batch" where
  "append_record r st =
     (let st1 = st\<lparr>fileList := fileList st @ [rec_file r]\<rparr>;
          st2 = st1\<lparr>fileFullnameList := fileFullnameList st1 @ [rec_path r]\<rparr>;
          st3 = st2\<lparr>latList := latList st2 @ [rec_lat r]\<rparr>;
          st4 = st3\<lparr>longList := longList st3 @ [rec_long r]\<rparr>
      in st4\<lparr>addrList := addrList st4 @ [rec_addr r]\<rparr>)"

text \<open>
  One iteration, lines 60--101. When \<open>open\<close> raises, no handle exists; when
  \<open>Image(src)\<close> raises, the handle stays open, since \<open>src.close()\<close> is skipped
  by the exception; both print \<open>Could not open\<close> and continue. Otherwise the file
  is closed, \<open>Opening\<close> is printed and the EXIF stage runs: its exception is
  caught and reported (lines 99--101), a record is appended and followed by an
  empty \<open>print()\<close> (line 94).
\<close>

definition process_file :: "env \<Rightarrow> batch \<Rightarrow> string \<Rightarrow> batch" where
  "process_file env st f =
     (let filename = full_path (folderName env) f in
      case disk env filename of
        Unopenable \<Rightarrow> emit [Could_Not_Open filename] st
      | Unparseable \<Rightarrow> emit [Could_Not_Open filename] (open_file filename st)
      | Image_File img \<Rightarrow>
          (let st1 = emit [Opening filename] (close_file filename (open_file filename st));
               stage = exif_stage (reverse_geo env) f filename img;
               st2 = emit (fst stage) st1
           in case snd stage of
                Inl e \<Rightarrow> emit [Exif_Exception filename] st2
              | Inr None \<Rightarrow> st2
              | Inr (Some r) \<Rightarrow> emit [Blank_Line] (append_record r st2)))"

fun collect :: "env \<Rightarrow> batch \<Rightarrow> string list \<Rightarrow> batch" where
  "collect env st [] = st"
| "collect env st (f # fs) = collect env (process_file env st f) fs"

text \<open>The five lists have one entry per appended photo.\<close>

definition parallel_lists :: "batch \<Rightarrow> bool" where
  "parallel_lists st \<longleftrightarrow>
     length (fileFullnameList st) = length (fileList st) \<and>
     length (latList st) = length (fileList st) \<and>
     length (longList st) = length (fileList st) \<and>
     length (addrList st) = length (fileList st)"

text \<open>The printed lines that end the handling of a skipped file.\<close>

fun skip_line :: "log_line \<Rightarrow> bool" where
  "skip_line (Could_Not_Open _) = True"
| "skip_line (No_Exif_Info _) = True"
| "skip_line (Exif_Exception _) = True"
| "skip_line _ = False"

section \<open>The spec's batch\<close>

text \<open>
  The batch of section 4.3 as a function of the listing: the located records in
  listing order, and for each skipped file the diagnostic naming it.
\<close>

definition located_records :: "env \<Rightarrow> string list \<Rightarrow> location_record list" where
  "located_records env fs =
     List.map_filter (\<lambda>f. case extract_photo env f of Located r \<Rightarrow> Some r | _ \<Rightarrow> None) fs"

text \<open>The five lists of a batch, and the same five projections of a list of records.\<close>

definition batch_lists :: "batch \<Rightarrow> string list \<times> string list \<times> real list \<times> real list \<times> string list list" where
  "batch_lists st = (fileList st, fileFullnameList st, latList st, longList st, addrList st)"

definition record_lists ::
  "location_record list \<Rightarrow> string list \<times> string list \<times> real list \<times> real list \<times> string list list" where
  "record_lists rs = (map rec_file rs, map rec_path rs, map rec_lat rs, map rec_long rs, map rec_addr rs)"

fun diagnostic :: "string \<Rightarrow> outcome \<Rightarrow> log_line list" where
  "diagnostic p Open_Error = [Could_Not_Open p]"
| "diagnostic p No_Exif = [No_Exif_Info p]"
| "diagnostic p (Exif_Read_Error e) = [Exif_Exception p]"
| "diagnostic p (Located r) = []"

definition skip_diagnostics :: "env \<Rightarrow> string list \<Rightarrow> log_line list" where
  "skip_diagnostics env fs =
     concat (map (\<lambda>f. diagnostic (full_path (folderName env) f) (extract_photo env f)) fs)"

text \<open>The lines one iteration of the loop prints for a file, from an empty terminal.\<close>

definition file_trace :: "env \<Rightarrow> string \<Rightarrow> log_line list" where
  "file_trace env f = stdout (process_file env batch_init f)"

text \<open>Appending a list of records, one \<open>append_record\<close> after the other.\<close>

abbreviation append_all :: "batch \<Rightarrow> location_record list \<Rightarrow> batch" where
  "append_all st R \<equiv> foldl (\<lambda>s r. append_record r s) st R"

section \<open>Lemmas\<close>

lemma exif_stage_skip_lines:
  "filter skip_line (fst (exif_stage geo f p img)) =
     (if snd (exif_stage geo f p img) = Inr None then [No_Exif_Info p] else [])"
  by (auto simp: exif_stage_def py_attr_def py_bind_eq_Inr py_split_def split: option.splits sum.splits)

lemma batch_frame [simp]:
  "batch_lists (emit ls st) = batch_lists st"
  "batch_lists (open_file p st) = batch_lists st"
  "batch_lists (close_file p st) = batch_lists st"
  "open_handles (emit ls st) = open_handles st"
  "stdout (open_file p st) = stdout st"
  "stdout (close_file p st) = stdout st"
  "stdout (append_record r st) = stdout st"
  "open_handles (append_record r st) = open_handles st"
  "stdout (emit ls st) = stdout st @ ls"
  by (simp_all add: batch_lists_def emit_def open_file_def close_file_def append_record_def Let_def)

lemma open_handles_open_close [simp]:
  "open_handles (close_file p (open_file p st)) = open_handles st"
  "open_handles (open_file p st) = add_mset p (open_handles st)"
  by (simp_all add: open_file_def close_file_def)

lemma append_record_fields [simp]:
  "fileList (append_record r st) = fileList st @ [rec_file r]"
  "fileFullnameList (append_record r st) = fileFullnameList st @ [rec_path r]"
  "latList (append_record r st) = latList st @ [rec_lat r]"
  "longList (append_record r st) = longList st @ [rec_long r]"
  "addrList (append_record r st) = addrList st @ [rec_addr r]"
  by (simp_all add: append_record_def Let_def)

lemma batch_lists_append_record_cong:
  "batch_lists st = batch_lists st' \<Longrightarrow> batch_lists (append_record r st) = batch_lists (append_record r st')"
  by (simp add: batch_lists_def)

lemmas process_file_unfold = process_file_def extract_photo_def Let_def

lemma process_file_lists:
  "batch_lists (process_file env st f) =
     batch_lists (case extract_photo env f of Located r \<Rightarrow> append_record r st | _ \<Rightarrow> st)"
  by (simp add: process_file_unfold batch_lists_def emit_def open_file_def close_file_def split: file_entry.split sum.split option.split)

lemma process_file_skip_lines:
  "filter skip_line (stdout (process_file env st f)) =
     filter skip_line (stdout st) @ diagnostic (full_path (folderName env) f) (extract_photo env f)"
  by (simp add: process_file_unfold exif_stage_skip_lines split: file_entry.split sum.split option.split)

lemma process_file_handles:
  "open_handles (process_file env st f) =
     (if disk env (full_path (folderName env) f) = Unparseable
      then add_mset (full_path (folderName env) f) (open_handles st) else open_handles st)"
  by (simp add: process_file_def Let_def split: file_entry.split sum.split option.split)

lemma batch_lists_append_all_cong:
  "batch_lists s = batch_lists s' \<Longrightarrow> batch_lists (append_all s R) = batch_lists (append_all s' R)"
proof (induction R arbitrary: s s')
  case (Cons r R)
  have "batch_lists (append_record r s) = batch_lists (append_record r s')"
    using Cons.prems by (rule batch_lists_append_record_cong)
  then show ?case
    unfolding foldl_Cons by (rule Cons.IH)
qed simp

lemma batch_lists_append_all:
  "batch_lists (append_all st R) =
     (fileList st @ map rec_file R, fileFullnameList st @ map rec_path R, latList st @ map rec_lat R,
      longList st @ map rec_long R, addrList st @ map rec_addr R)"
  by (induction R arbitrary: st) (simp_all add: batch_lists_def)

lemma located_records_Cons:
  "located_records env (f # fs) =
     (case extract_photo env f of Located r \<Rightarrow> r # located_records env fs | _ \<Rightarrow> located_records env fs)"
  by (simp add: located_records_def split: outcome.split)

lemma skip_diagnostics_Cons:
  "skip_diagnostics env (f # fs) =
     diagnostic (full_path (folderName env) f) (extract_photo env f) @ skip_diagnostics env fs"
  by (simp add: skip_diagnostics_def)

lemma collect_lists:
  "batch_lists (collect env st fs) = batch_lists (append_all st (located_records env fs))"
proof (induction fs arbitrary: st)
  case Nil
  then show ?case by (simp add: located_records_def)
next
  case (Cons f fs)
  let ?st' = "case extract_photo env f of Located r \<Rightarrow> append_record r st | _ \<Rightarrow> st"
  have "batch_lists (collect env st (f # fs)) =
        batch_lists (append_all (process_file env st f) (located_records env fs))"
    using Cons.IH by simp
  also have "\<dots> = batch_lists (append_all ?st' (located_records env fs))"
    by (rule batch_lists_append_all_cong) (rule process_file_lists)
  also have "\<dots> = batch_lists (append_all st (located_records env (f # fs)))"
    by (simp add: located_records_Cons split: outcome.split)
  finally show ?case .
qed

lemma collect_skip_lines:
  "filter skip_line (stdout (collect env st fs)) = filter skip_line (stdout st) @ skip_diagnostics env fs"
  by (induction fs arbitrary: st) (simp_all add: process_file_skip_lines skip_diagnostics_def)

lemma collect_handles:
  "open_handles (collect env st fs) =
     open_handles st +
     mset (map (full_path (folderName env))
             (filter (\<lambda>f. disk env (full_path (folderName env) f) = Unparseable) fs))"
  by (induction fs arbitrary: st) (simp_all add: process_file_handles)

lemma located_records_count:
  "length (located_records env fs) + length (skip_diagnostics env fs) = length fs"
proof (induction fs)
  case (Cons f fs)
  then show ?case
    by (cases "extract_photo env f") (simp_all add: located_records_Cons skip_diagnostics_Cons)
qed (simp add: located_records_def skip_diagnostics_def)

lemma located_records_files:
  "map rec_file (located_records env fs) = filter (\<lambda>f. \<exists>r. extract_photo env f = Located r) fs"
proof (induction fs)
  case (Cons f fs)
  then show ?case
    by (cases "extract_photo env f") (auto simp: located_records_Cons dest: extract_photo_Located_names)
qed (simp add: located_records_def)

lemma located_records_paths:
  "map rec_path (located_records env fs) = map (full_path (folderName env)) (map rec_file (located_records env fs))"
proof (induction fs)
  case (Cons f fs)
  then show ?case
    by (cases "extract_photo env f") (auto simp: located_records_Cons dest: extract_photo_Located_names)
qed (simp add: located_records_def)

lemma located_records_Located:
  "r \<in> set (located_records env fs) \<Longrightarrow> \<exists>f. extract_photo env f = Located r"
proof (induction fs)
  case (Cons f fs)
  then show ?case by (auto simp: located_records_Cons split: outcome.splits)
qed (simp add: located_records_def)

lemma process_file_stdout:
  "stdout (process_file env st f) = stdout st @ file_trace env f"
  by (simp add: file_trace_def process_file_def Let_def batch_init_def
      split: file_entry.split sum.split option.split)

lemma collect_init_lists:
  "batch_lists (collect env batch_init fs) = record_lists (located_records env fs)"
  using collect_lists [of env batch_init fs] batch_lists_append_all [of batch_init "located_records env fs"]
  by (simp add: batch_init_def record_lists_def)

lemma collect_init_fields:
  "fileList (collect env batch_init fs) = map rec_file (located_records env fs)"
  "fileFullnameList (collect env batch_init fs) = map rec_path (located_records env fs)"
  "latList (collect env batch_init fs) = map rec_lat (located_records env fs)"
  "longList (collect env batch_init fs) = map rec_long (located_records env fs)"
  "addrList (collect env batch_init fs) = map rec_addr (located_records env fs)"
  using collect_init_lists [of env fs] by (simp_all add: batch_lists_def record_lists_def)

text \<open>C1. The loop implements the spec's batch: from empty lists, its five parallel lists are the names, paths, latitudes, longitudes and address lists of the located records of the listing in listing order, and the diagnostics it prints for skipped files are, in listing order, one per file that is not located, naming its path and its kind of failure.\<close>

theorem collect_refines_batch:
  "batch_lists (collect env batch_init fs) = record_lists (located_records env fs) \<and>
   filter skip_line (stdout (collect env batch_init fs)) = skip_diagnostics env fs"
  using collect_init_lists [of env fs] collect_skip_lines [of env batch_init fs]
  by (simp add: batch_init_def)

text \<open>C4. Every listed file is counted exactly once: the appended records plus the printed skip diagnostics number as many as the files of the listing, whatever the mix of failures.\<close>

theorem collect_counts_every_file:
  "length (fileList (collect env batch_init fs)) +
   length (filter skip_line (stdout (collect env batch_init fs))) = length fs"
  using located_records_count [of env fs]
  unfolding collect_init_fields collect_skip_lines by (simp add: batch_init_def)

text \<open>C5. The appended file names are a subsequence of the listing, so survivors keep their listing order, and each full name is the folder joined to the bare name of the same row.\<close>

theorem collect_keeps_listing_order:
  "subseq (fileList (collect env batch_init fs)) fs \<and>
   fileFullnameList (collect env batch_init fs) =
     map (full_path (folderName env)) (fileList (collect env batch_init fs))"
  using collect_init_lists [of env fs] located_records_files [of env fs] located_records_paths [of env fs]
  by (simp add: batch_lists_def record_lists_def)

text \<open>C14. The handles left open after the loop are exactly those of the files that opened but were not image containers: Image(src) raised before src.close(), and nothing closes them later. Every other handle is closed.\<close>

theorem collect_open_handles:
  "open_handles (collect env batch_init fs) =
     mset (map (full_path (folderName env))
             (filter (\<lambda>f. disk env (full_path (folderName env) f) = Unparseable) fs))"
  by (simp add: collect_handles batch_init_def)

text \<open>C12. The five lists stay parallel: if they have one length before the loop, they have one length after it.\<close>

theorem collect_parallel_lists:
  "parallel_lists st \<Longrightarrow> parallel_lists (collect env st fs)"
  using collect_lists [of env st fs] batch_lists_append_all [of st "located_records env fs"]
  by (simp add: parallel_lists_def batch_lists_def)

theorem collect_parallel_lists_witness:
  "parallel_lists batch_init \<and> parallel_lists (collect eiffel_env batch_init [''eiffel.jpg''])"
proof -
  have p: "parallel_lists batch_init" by (simp add: parallel_lists_def batch_init_def)
  show ?thesis using p collect_parallel_lists [OF p, of eiffel_env "[''eiffel.jpg'']"] by simp
qed


text \<open>C15. Each entry of addrList is what line 85 makes of a geocoder address: a non-empty list of parts, none of which contains the separator ", ".\<close>

theorem collect_addresses_split:
  "list_all (\<lambda>a. a \<noteq> [] \<and> list_all (\<lambda>p. \<not> sublist '', '' p) a) (addrList (collect env batch_init fs))"
  unfolding collect_init_fields list_all_iff
proof
  fix a assume "a \<in> set (map rec_addr (located_records env fs))"
  then obtain r where r: "r \<in> set (located_records env fs)" "a = rec_addr r" by auto
  then obtain s where "a = split_at_sep '', '' [] s"
    using located_records_Located extract_photo_Located_values by blast
  then show "a \<noteq> [] \<and> (\<forall>p \<in> set a. \<not> sublist '', '' p)"
    using split_at_sep_sep_free [of "'', ''" s] by (simp add: list_all_iff)
qed

text \<open>C16. Every latitude and longitude in latList and longList is a multiple of one millionth of a degree: the value round(..., 6) returns at lines 78 and 79, whatever the EXIF data.\<close>

theorem collect_coords_on_grid:
  "list_all (\<lambda>x. \<exists>k::int. x = of_int k / 10 ^ 6)
     (latList (collect env batch_init fs) @ longList (collect env batch_init fs))"
  unfolding collect_init_fields list_all_iff
proof
  fix x assume "x \<in> set (map rec_lat (located_records env fs) @ map rec_long (located_records env fs))"
  then obtain r where r: "r \<in> set (located_records env fs)" "x = rec_lat r \<or> x = rec_long r" by auto
  then obtain u where "x = py_round u 6"
    using located_records_Located extract_photo_Located_values by blast
  then show "\<exists>k::int. x = of_int k / 10 ^ 6" by (auto simp: py_round_def)
qed


text \<open>C17. The lines printed for a photo that becomes a record are, in order: Opening with its path, its pixel dimensions, its GPS longitude and latitude with their references, the rounded coordinates of the record, the geocoder's address (the one the record's address list splits) and an empty line.\<close>

theorem process_file_located_trace:
  assumes "extract_photo env f = Located r"
  shows "\<exists>x y lon lon_ref lat lat_ref a.
           stdout (process_file env st f) =
             stdout st @ [Opening (full_path (folderName env) f), Dimensions x y,
               Gps_Longitude lon lon_ref, Gps_Latitude lat lat_ref, Lat_Long (rec_lat r) (rec_long r),
               Address_Line (Some a), Blank_Line] \<and>
           rec_addr r = split_at_sep '', '' [] a"
  using assms
  by (auto simp: process_file_unfold exif_stage_def py_split_def py_bind_eq_Inr nominatim_reverse_eq_Inr
      split: file_entry.splits sum.splits option.splits if_splits)

theorem process_file_located_trace_witness:
  "extract_photo eiffel_env ''eiffel.jpg'' =
     Located \<lparr>rec_file = ''eiffel.jpg'', rec_path = full_path ''photos'' ''eiffel.jpg'',
              rec_lat = 48.858222, rec_long = 2.2945,
              rec_addr = [''Tour Eiffel'', ''Avenue Anatole France'', ''Paris'',
                          ''Ile-de-France'', ''75007'', ''France'']\<rparr> \<and>
   (\<exists>x y lon lon_ref lat lat_ref a.
      stdout (process_file eiffel_env batch_init ''eiffel.jpg'') =
        stdout batch_init @ [Opening (full_path (folderName eiffel_env) ''eiffel.jpg''), Dimensions x y,
          Gps_Longitude lon lon_ref, Gps_Latitude lat lat_ref, Lat_Long 48.858222 2.2945,
          Address_Line (Some a), Blank_Line] \<and>
      [''Tour Eiffel'', ''Avenue Anatole France'', ''Paris'', ''Ile-de-France'', ''75007'', ''France''] =
        split_at_sep '', '' [] a)"
  using extract_photo_eiffel process_file_located_trace [OF extract_photo_eiffel, of batch_init] by simp


text \<open>C13. The output of the loop is the output of its files one after the other: in listing order, never interleaved, and what a file prints depends on that file alone, not on the files before it.\<close>

theorem collect_stdout_per_file:
  "stdout (collect env st fs) = stdout st @ concat (map (file_trace env) fs)"
  by (induction fs arbitrary: st) (simp_all add: process_file_stdout)

end
