(* ===== verification/Tooltip.thy ===== *)
theory Tooltip
  imports Batch
begin

text \<open>
  AddressFormatter and the marker loop: lines 116--122 of \<open>src/main.py\<close>. For
  each row \<open>i\<close> of the batch the loop builds the tooltip
  \<open>f'{fileList[i]} {ss1} {ss2}'\<close> from \<open>ss1 = ' '.join(addrList[i][:-6])\<close> and
  \<open>ss2 = ' '.join(addrList[i][-5:])\<close>, and adds a red marker with the photo's
  thumbnail to the map. The map is the \<open>mapPy\<close> package, outside the repository:
  it is modelled from the spec (section 6) as a sink that records the centre, the
  zoom and the markers in the order they are added. The lemmas: what the tooltip
  holds for long and short addresses (the component sixth from the end is dropped;
  a short address does not raise), that it is one line, and that the loop adds one
  marker per row without an index error when the batch's lists are parallel, and
  raises when they are not.
\<close>

section \<open>Definitions\<close>

definition tooltip :: "string \<Rightarrow> string list \<Rightarrow> string" where
  "tooltip f addrL =
     (let ss1 = py_join '' '' (py_slice_to addrL (-6));
          ss2 = py_join '' '' (py_slice_from addrL (-5))
      in f @ '' '' @ ss1 @ '' '' @ ss2)"

record marker =
  m_lat :: real
  m_long :: real
  m_image :: string
  m_scale :: real
  m_color :: string
  m_tooltip :: string

record map_state =
  center_lat :: real
  center_long :: real
  zoom :: nat
  markers :: "marker list"

text \<open>\<open>mapy.createMap(lat, long, zoomLevel)\<close>: an empty map.\<close>

definition createMap :: "real \<Rightarrow> real \<Rightarrow> nat \<Rightarrow> map_state" where
  "createMap lat long z = \<lparr>center_lat = lat, center_long = long, zoom = z, markers = []\<rparr>"

text \<open>\<open>mapy.addMarkerWithImage(map, lat, long, image, scale, mColor, mTooltip)\<close>.\<close>

definition addMarkerWithImage ::
  "map_state \<Rightarrow> real \<Rightarrow> real \<Rightarrow> string \<Rightarrow> real \<Rightarrow> string \<Rightarrow> string \<Rightarrow> map_state" where
  "addMarkerWithImage m lat long img scale color tip =
     m\<lparr>markers := markers m @
        [\<lparr>m_lat = lat, m_long = long, m_image = img, m_scale = scale, m_color = color,
          m_tooltip = tip\<rparr>]\<rparr>"

text \<open>
  One iteration of the loop of lines 117--122. The indexing reads raise
  \<open>IndexError\<close> when a list is shorter than \<open>fileList\<close>; the two reads of
  \<open>addrList[i]\<close> yield the same value and are read once.
\<close>

definition marker_step :: "real \<Rightarrow> batch \<Rightarrow> map_state \<Rightarrow> nat \<Rightarrow> map_state py_result" where
  "marker_step scale st m i =
     py_bind (py_index (addrList st) (int i)) (\<lambda>addrL.
     py_bind (py_index (fileList st) (int i)) (\<lambda>fname.
     py_bind (py_index (latList st) (int i)) (\<lambda>lat.
     py_bind (py_index (longList st) (int i)) (\<lambda>long.
     py_bind (py_index (fileFullnameList st) (int i)) (\<lambda>path.
       Inr (addMarkerWithImage m lat long path scale ''red'' (tooltip fname addrL)))))))"

fun marker_loop :: "real \<Rightarrow> batch \<Rightarrow> map_state \<Rightarrow> nat list \<Rightarrow> map_state py_result" where
  "marker_loop scale st m [] = Inr m"
| "marker_loop scale st m (i # ixs) = py_bind (marker_step scale st m i) (\<lambda>m'. marker_loop scale st m' ixs)"

text \<open>The marker of row \<open>i\<close> of a batch.\<close>

definition row_marker :: "real \<Rightarrow> batch \<Rightarrow> nat \<Rightarrow> marker" where
  "row_marker scale st i =
     \<lparr>m_lat = latList st ! i, m_long = longList st ! i, m_image = fileFullnameList st ! i,
      m_scale = scale, m_color = ''red'', m_tooltip = tooltip (fileList st ! i) (addrList st ! i)\<rparr>"

section \<open>Lemmas\<close>

lemma marker_step_ok:
  assumes "parallel_lists st" "i < length (fileList st)"
  shows "marker_step scale st m i = Inr (m\<lparr>markers := markers m @ [row_marker scale st i]\<rparr>)"
  using assms by (simp add: marker_step_def parallel_lists_def addMarkerWithImage_def row_marker_def)

lemma marker_loop_ok:
  assumes "parallel_lists st" "\<forall>i \<in> set ixs. i < length (fileList st)"
  shows "marker_loop scale st m ixs = Inr (m\<lparr>markers := markers m @ map (row_marker scale st) ixs\<rparr>)"
  using assms(2)
proof (induction "ixs" arbitrary: m)
  case (Cons i ixs)
  then show ?case by (simp add: marker_step_ok [OF assms(1)])
qed simp

text \<open>C6. For an address of six components or more, the tooltip is the file name, the components before the last six and the last five, each group joined by spaces: the component sixth from the end (for the spec's Eiffel address the name of the place) appears nowhere, while the spec puts every component before the last five on the second line.\<close>

lemma tooltip_drops_sixth_from_last:
  assumes "6 \<le> length a"
  shows "tooltip f a =
           f @ '' '' @ py_join '' '' (take (length a - 6) a) @ '' '' @ py_join '' '' (drop (length a - 5) a) \<and>
         take (length a - 6) a @ a ! (length a - 6) # drop (length a - 5) a = a"
proof -
  have "Suc (length a - 6) = length a - 5" using assms by simp
  moreover have "length a - 6 < length a" using assms by simp
  ultimately have "take (length a - 6) a @ a ! (length a - 6) # drop (length a - 5) a = a"
    by (metis id_take_nth_drop)
  then show ?thesis by (simp add: tooltip_def)
qed

lemma tooltip_drops_sixth_from_last_witness:
  "6 \<le> length [''Tour Eiffel'', ''Avenue Anatole France'', ''Paris'', ''Ile-de-France'', ''75007'', ''France''] \<and>
   tooltip ''eiffel.jpg'' [''Tour Eiffel'', ''Avenue Anatole France'', ''Paris'', ''Ile-de-France'', ''75007'', ''France''] =
     ''eiffel.jpg  Avenue Anatole France Paris Ile-de-France 75007 France'' \<and>
   take 0 [''Tour Eiffel'', ''Avenue Anatole France'', ''Paris'', ''Ile-de-France'', ''75007'', ''France''] @ ''Tour Eiffel'' # drop 1 [''Tour Eiffel'', ''Avenue Anatole France'', ''Paris'', ''Ile-de-France'', ''75007'', ''France''] = [''Tour Eiffel'', ''Avenue Anatole France'', ''Paris'', ''Ile-de-France'', ''75007'', ''France'']"
  using tooltip_drops_sixth_from_last [of "[''Tour Eiffel'', ''Avenue Anatole France'', ''Paris'', ''Ile-de-France'', ''75007'', ''France'']" "''eiffel.jpg''"] by simp

text \<open>C27. An address of at most five components does not raise: the leading group is empty and the tooltip is the file name, two spaces and all components joined by spaces.\<close>

lemma tooltip_short_address:
  "length a \<le> 5 \<Longrightarrow> tooltip f a = f @ ''  '' @ py_join '' '' a"
  by (simp add: tooltip_def)

lemma tooltip_short_address_witness:
  "length [''123 Main St'', ''Springfield''] \<le> 5 \<and>
   tooltip ''home.jpg'' [''123 Main St'', ''Springfield''] = ''home.jpg  123 Main St Springfield''"
  using tooltip_short_address [of "[''123 Main St'', ''Springfield'']" "''home.jpg''"] by simp

text \<open>C28. The tooltip is a single line of plain text: a character other than the space that occurs neither in the file name nor in an address component (the newline, or the < of an HTML line break) does not occur in it; the spec asks for three lines separated by line-break markup.\<close>

lemma tooltip_one_line:
  assumes "c \<notin> set f" "\<forall>x \<in> set a. c \<notin> set x" "c \<noteq> CHR '' ''"
  shows "c \<notin> set (tooltip f a)"
proof -
  have "set (py_join '' '' (take k a)) \<subseteq> \<Union> (set ` set a) \<union> {CHR '' ''}" for k
    using set_py_join [of "'' ''" "take k a"] set_take_subset [of k a] by auto
  moreover have "set (py_join '' '' (drop k a)) \<subseteq> \<Union> (set ` set a) \<union> {CHR '' ''}" for k
    using set_py_join [of "'' ''" "drop k a"] set_drop_subset [of k a] by auto
  ultimately show ?thesis
    using assms by (fastforce simp: tooltip_def)
qed

lemma tooltip_one_line_witness:
  "CHR ''<'' \<notin> set ''eiffel.jpg'' \<and> CHR ''<'' \<noteq> CHR '' '' \<and>
   CHR ''<'' \<notin> set (tooltip ''eiffel.jpg'' [''Tour Eiffel'', ''Avenue Anatole France'', ''Paris'', ''Ile-de-France'', ''75007'', ''France''])"
proof -
  have "\<forall>x \<in> set [''Tour Eiffel'', ''Avenue Anatole France'', ''Paris'', ''Ile-de-France'', ''75007'', ''France'']. CHR ''<'' \<notin> set x" by simp
  then show ?thesis
    using tooltip_one_line [of "CHR ''<''" "''eiffel.jpg''" "[''Tour Eiffel'', ''Avenue Anatole France'', ''Paris'', ''Ile-de-France'', ''75007'', ''France'']"] by simp
qed

text \<open>C11. When the five lists of the batch are parallel, the marker loop over range(len(fileList)) raises no IndexError and adds, in row order, one red marker per row at the row's coordinates with its full path as image and its tooltip.\<close>

theorem markers_for_batch:
  "parallel_lists st \<Longrightarrow>
   marker_loop scale st m [0..<length (fileList st)] =
     Inr (m\<lparr>markers := markers m @ map (row_marker scale st) [0..<length (fileList st)]\<rparr>)"
  by (rule marker_loop_ok) simp_all

theorem markers_for_batch_witness:
  "parallel_lists (append_record \<lparr>rec_file = ''a.jpg'', rec_path = ''photos/a.jpg'', rec_lat = 1, rec_long = 2, rec_addr = [''Paris'']\<rparr> batch_init) \<and>
   marker_loop 0.1 (append_record \<lparr>rec_file = ''a.jpg'', rec_path = ''photos/a.jpg'', rec_lat = 1, rec_long = 2, rec_addr = [''Paris'']\<rparr> batch_init) (createMap 0 0 14) [0..<1] =
     Inr (createMap 0 0 14\<lparr>markers := [row_marker 0.1 (append_record \<lparr>rec_file = ''a.jpg'', rec_path = ''photos/a.jpg'', rec_lat = 1, rec_long = 2, rec_addr = [''Paris'']\<rparr> batch_init) 0]\<rparr>)"
proof -
  have p: "parallel_lists (append_record \<lparr>rec_file = ''a.jpg'', rec_path = ''photos/a.jpg'', rec_lat = 1, rec_long = 2, rec_addr = [''Paris'']\<rparr> batch_init)"
    by (simp add: parallel_lists_def batch_init_def)
  show ?thesis
    using p markers_for_batch [OF p, of "0.1" "createMap 0 0 14"]
    by (simp add: batch_init_def createMap_def)
qed

end
