(* ===== verification/Center.thy ===== *)
theory Center
  imports Prelude
begin

text \<open>
  CenterPointCalculator: \<open>mapy.getCenterPoint(latList)\<close> and
  \<open>mapy.getCenterPoint(longList)\<close> (line 110) call the \<open>mapPy\<close> package, which is
  not part of the repository. It is modelled from the spec (section 4.5) as the
  arithmetic mean; on an empty list the mean divides by zero, which Python reports as
  \<open>ZeroDivisionError\<close>, the failure the spec asks to surface. The lemmas: the
  mean of a non-empty list lies between any bounds of its elements (so the centre of
  valid coordinates is a valid coordinate), and the spec's examples.
\<close>

section \<open>Definitions\<close>

definition getCenterPoint :: "real list \<Rightarrow> real py_result" where
  "getCenterPoint xs =
     (if xs = [] then Inl ZeroDivisionError else Inr (sum_list xs / of_nat (length xs)))"

section \<open>Lemmas\<close>

lemma sum_list_bounds:
  fixes xs :: "real list"
  assumes "\<forall>x \<in> set xs. lo \<le> x \<and> x \<le> hi"
  shows "of_nat (length xs) * lo \<le> sum_list xs \<and> sum_list xs \<le> of_nat (length xs) * hi"
  using assms by (induction xs) (auto simp: algebra_simps)

text \<open>The centre of a non-empty list lies between any bounds of its elements.\<close>

lemma getCenterPoint_between:
  assumes "xs \<noteq> []" "\<forall>x \<in> set xs. lo \<le> x \<and> x \<le> hi"
  shows "\<exists>c. getCenterPoint xs = Inr c \<and> lo \<le> c \<and> c \<le> hi"
proof -
  have n: "(0::real) < of_nat (length xs)" using assms(1) by simp
  from sum_list_bounds [OF assms(2)] n
  have "lo \<le> sum_list xs / of_nat (length xs) \<and> sum_list xs / of_nat (length xs) \<le> hi"
    by (simp add: field_simps mult.commute)
  with assms(1) show ?thesis by (simp add: getCenterPoint_def)
qed

text \<open>The spec's examples (section 8).\<close>

lemma getCenterPoint_examples:
  "getCenterPoint [10, 20, 30] = Inr 20 \<and> getCenterPoint [x] = Inr x \<and>
   getCenterPoint [] = Inl ZeroDivisionError"
  by (simp add: getCenterPoint_def)

end
