(* ===== verification/Pipeline.thy ===== *)
theory Pipeline
  imports Tooltip Center
begin

text \<open>
  The main pipeline of \<open>src/main.py\<close>: the tunables (lines 41--44), the data
  frame (lines 104--106), \<open>main_run\<close>, which is \<open>main()\<close> after the listing
  (the loop of \<open>Batch\<close>, the frame, the map centred by \<open>Center\<close> and the marker
  loop of \<open>Tooltip\<close>), the world \<open>main()\<close> runs in, \<open>main_program\<close>, the
  whole of \<open>main()\<close> (lines 39--128) with \<open>os.listdir\<close>, \<open>saveMap\<close> and
  \<open>showMap\<close>, and \<open>script_entry\<close>, the guard of lines 131--132. The lemmas
  compute the result of a run from the located records of its listing; the
  end-to-end theorems are in \<open>Spec2Isabelle\<close>.
\<close>

section \<open>Definitions\<close>

text \<open>The tunables of lines 41--44.\<close>

record config =
  scaleFactor :: real
  zoomLevel :: nat

definition main_config :: config where
  "main_config = \<lparr>scaleFactor = 0.1, zoomLevel = 14\<rparr>"

text \<open>
  \<open>pd.DataFrame(data)\<close> (lines 104--105) raises \<open>ValueError\<close> when its columns have
  different lengths; \<open>print(pData)\<close> (line 106) prints its four columns, kept as one
  \<open>Data_Frame\<close> line without the table layout.
\<close>

definition dataframe_check :: "batch \<Rightarrow> unit py_result" where
  "dataframe_check st =
     (if length (latList st) = length (fileList st) \<and> length (longList st) = length (fileList st) \<and>
         length (addrList st) = length (fileList st)
      then Inr () else Inl ValueError)"

text \<open>
  \<open>main()\<close> after the listing: the loop, the data frame, the map centred on the
  mean coordinates (line 110; \<open>createMap\<close> never returns \<open>None\<close>, so the assertion
  of line 113 holds), and the markers (lines 116--122). The result pairs the batch,
  with everything printed, with the map or the exception that ends the run. Saving
  and showing the map (lines 125--128) are not modelled.
\<close>

definition main_run :: "config \<Rightarrow> env \<Rightarrow> string list \<Rightarrow> batch \<times> map_state py_result" where
  "main_run cfg env listing =
     (let st = collect env batch_init listing
      in case dataframe_check st of
           Inl e \<Rightarrow> (st, Inl e)
         | Inr _ \<Rightarrow>
             (emit [Data_Frame (fileList st) (latList st) (longList st) (addrList st)] st,
              py_bind (getCenterPoint (latList st)) (\<lambda>clat.
              py_bind (getCenterPoint (longList st)) (\<lambda>clong.
                marker_loop (scaleFactor cfg) st (createMap clat clong (zoomLevel cfg))
                  [0..<length (fileList st)]))))"

text \<open>The marker the spec expects for a located record.\<close>

definition record_marker :: "config \<Rightarrow> location_record \<Rightarrow> marker" where
  "record_marker cfg r =
     \<lparr>m_lat = rec_lat r, m_long = rec_long r, m_image = rec_path r, m_scale = scaleFactor cfg,
      m_color = ''red'', m_tooltip = tooltip (rec_file r) (rec_addr r)\<rparr>"

text \<open>
  The world \<open>main()\<close> runs in: \<open>os.listdir\<close> (line 50, \<open>None\<close> for a folder
  that does not exist, where it raises \<open>OSError\<close>), the files and the geocoding
  service.
\<close>

record world =
  listdir :: "string \<Rightarrow> string list option"
  files :: "string \<Rightarrow> file_entry"
  geocoder_service :: geocoder

text \<open>The raw string of line 47; \<open>CHR 0x5C\<close> is the backslash.\<close>

definition main_folder :: string where
  "main_folder =
     ''C:'' @ CHR 0x5C # ''Users'' @ CHR 0x5C # ''VeronikaDavis'' @ CHR 0x5C # ''Documents'' @
     CHR 0x5C # ''Jupyter Notebook'' @ CHR 0x5C # ''pro1'' @ CHR 0x5C # ''MappingPhotos''"

definition world_env :: "world \<Rightarrow> env" where
  "world_env w = \<lparr>folderName = main_folder, disk = files w, reverse_geo = geocoder_service w\<rparr>"

text \<open>
  \<open>mapy.saveMap(map, name)\<close> and \<open>mapy.showMap(map)\<close> (lines 125 and 128) of
  \<open>mapPy\<close>, outside the repository: modelled from the spec as the output events they
  cause, the page written and the page shown.
\<close>

datatype map_io = Saved_Map string map_state | Shown_Map map_state

definition saveMap :: "map_state \<Rightarrow> string \<Rightarrow> map_io" where
  "saveMap m name = Saved_Map name m"

definition showMap :: "map_state \<Rightarrow> map_io" where
  "showMap m = Shown_Map m"

text \<open>
  The whole of \<open>main()\<close> (lines 39--128): the tunables, the folder, the listing,
  the loop and the map of \<open>main_run\<close>, then saving and showing the map. The result
  pairs the batch with the map and the output events, or the exception that ends the
  run.
\<close>

definition main_program :: "world \<Rightarrow> batch \<times> (map_state \<times> map_io list) py_result" where
  "main_program w =
     (case listdir w main_folder of
        None \<Rightarrow> (batch_init, Inl OSError)
      | Some folderFileList \<Rightarrow>
          (let (st, r) = main_run main_config (world_env w) folderFileList
           in (st, py_bind r (\<lambda>m. Inr (m, [saveMap m ''test_map.html'', showMap m])))))"

text \<open>\<open>if __name__ == "__main__": main()\<close> (lines 131--132): importing the module runs
  nothing.\<close>

definition script_entry :: "string \<Rightarrow> world \<Rightarrow> (batch \<times> (map_state \<times> map_io list) py_result) option" where
  "script_entry name w = (if name = ''__main__'' then Some (main_program w) else None)"

section \<open>Lemmas\<close>

lemma row_marker_collect:
  "i < length (located_records env fs) \<Longrightarrow>
   row_marker (scaleFactor cfg) (collect env batch_init fs) i = record_marker cfg (located_records env fs ! i)"
  by (simp add: row_marker_def record_marker_def collect_init_fields)

lemma main_run_eq:
  assumes "located_records env fs \<noteq> []"
  shows "snd (main_run cfg env fs) =
           Inr \<lparr>center_lat = sum_list (map rec_lat (located_records env fs)) / of_nat (length (located_records env fs)),
                center_long = sum_list (map rec_long (located_records env fs)) / of_nat (length (located_records env fs)),
                zoom = zoomLevel cfg,
                markers = map (record_marker cfg) (located_records env fs)\<rparr>"
proof -
  let ?R = "located_records env fs" and ?st = "collect env batch_init fs"
  have par: "parallel_lists ?st" by (simp add: parallel_lists_def collect_init_fields)
  have df: "dataframe_check ?st = Inr ()" by (simp add: dataframe_check_def collect_init_fields)
  have rows: "map (row_marker (scaleFactor cfg) ?st) [0..<length ?R] = map (record_marker cfg) ?R"
    by (rule nth_equalityI) (simp_all add: row_marker_collect)
  show ?thesis
    using assms
    by (simp add: main_run_def Let_def df getCenterPoint_def collect_init_fields
        marker_loop_ok [OF par] rows createMap_def)
qed

lemma main_run_empty:
  "located_records env fs = [] \<Longrightarrow> snd (main_run cfg env fs) = Inl ZeroDivisionError"
  by (simp add: main_run_def Let_def dataframe_check_def getCenterPoint_def collect_init_fields)

lemmas eiffel_eval = main_run_def main_config_def eiffel_env_def single_file_env_def eiffel_image_def
  eiffel_geocoder_def eiffel_address_def process_file_def exif_stage_def rounded_coord_eval
  batch_init_def emit_def open_file_def close_file_def append_record_def py_split_def
  dataframe_check_def getCenterPoint_def createMap_def marker_step_def addMarkerWithImage_def
  tooltip_def py_simps

lemma main_program_listed:
  "listdir w main_folder = Some fs \<Longrightarrow>
   main_program w = (fst (main_run main_config (world_env w) fs),
     py_bind (snd (main_run main_config (world_env w) fs))
       (\<lambda>m. Inr (m, [Saved_Map ''test_map.html'' m, Shown_Map m])))"
  by (simp add: main_program_def saveMap_def showMap_def split: prod.split)

lemma main_run_snd_cases:
  obtains "located_records env fs = []" "snd (main_run cfg env fs) = Inl ZeroDivisionError"
  | m where "located_records env fs \<noteq> []" "snd (main_run cfg env fs) = Inr m"
proof (cases "located_records env fs = []")
  case True
  then show ?thesis using main_run_empty that(1) by blast
next
  case False
  then show ?thesis using main_run_eq [OF False] that(2) by blast
qed

end
