(* ===== verification/Loop_Machine.thy ===== *)
theory Loop_Machine
  imports Batch
begin

text \<open>
  The file loop of \<open>main()\<close> in \<open>src/main.py\<close> (lines 59--101) as a small-step
  machine: one transition per statement of an iteration, with the \<open>try\<close>/\<open>except\<close>
  control flow written out as the transitions an exception takes. The program counter
  \<open>loop_pc\<close> names the statement about to run: the loop head (line 59), \<open>open\<close>
  (line 64), \<open>Image(src)\<close> (line 65), \<open>src.close()\<close> (line 66), the
  \<open>Opening\<close> print (line 71), the EXIF \<open>try\<close> block (lines 72--101, one transition
  through \<open>exif_stage\<close>), and the end of the loop. A state is the program counter, the
  files not yet visited and the \<open>batch\<close> of \<open>Batch\<close>. The machine exposes the
  moments between statements that \<open>process_file\<close> hides, where the handle of the
  current file is open; the lemmas prove an invariant of every reachable state: the
  five lists are parallel, and each open handle is either that of the image being
  parsed (between \<open>open\<close> and \<open>src.close()\<close>) or that of a file that opened but is
  not an image.
\<close>

section \<open>Definitions\<close>

datatype loop_pc =
    At_For
  | At_Open string
  | At_Image string
  | At_Close string exif_image
  | At_Opening string exif_image
  | At_Exif string exif_image
  | At_End

type_synonym loop_state = "loop_pc \<times> string list \<times> batch"

text \<open>
  One statement. \<open>open\<close> raises for a file that cannot be opened; \<open>Image(src)\<close>
  raises for a file that is no image, after the handle was opened; both go to the
  \<open>except\<close> of line 67, print \<open>Could not open\<close> and continue with the next file.
  The EXIF block either raises (caught at line 99, reported, next file), finds no EXIF
  block, or appends a record and prints an empty line.
\<close>

inductive loop_step :: "env \<Rightarrow> loop_state \<Rightarrow> loop_state \<Rightarrow> bool" for env where
  for_next: "loop_step env (At_For, f # fs, st) (At_Open f, fs, st)"
| for_end: "loop_step env (At_For, [], st) (At_End, [], st)"
| open_raises: "disk env (full_path (folderName env) f) = Unopenable \<Longrightarrow>
    loop_step env (At_Open f, fs, st)
      (At_For, fs, emit [Could_Not_Open (full_path (folderName env) f)] st)"
| open_ok: "disk env (full_path (folderName env) f) \<noteq> Unopenable \<Longrightarrow>
    loop_step env (At_Open f, fs, st) (At_Image f, fs, open_file (full_path (folderName env) f) st)"
| image_raises: "disk env (full_path (folderName env) f) = Unparseable \<Longrightarrow>
    loop_step env (At_Image f, fs, st)
      (At_For, fs, emit [Could_Not_Open (full_path (folderName env) f)] st)"
| image_ok: "disk env (full_path (folderName env) f) = Image_File img \<Longrightarrow>
    loop_step env (At_Image f, fs, st) (At_Close f img, fs, st)"
| close_src: "loop_step env (At_Close f img, fs, st)
    (At_Opening f img, fs, close_file (full_path (folderName env) f) st)"
| print_opening: "loop_step env (At_Opening f img, fs, st)
    (At_Exif f img, fs, emit [Opening (full_path (folderName env) f)] st)"
| exif_raises: "snd (exif_stage (reverse_geo env) f (full_path (folderName env) f) img) = Inl e \<Longrightarrow>
    loop_step env (At_Exif f img, fs, st)
      (At_For, fs, emit [Exif_Exception (full_path (folderName env) f)]
         (emit (fst (exif_stage (reverse_geo env) f (full_path (folderName env) f) img)) st))"
| exif_no_record: "snd (exif_stage (reverse_geo env) f (full_path (folderName env) f) img) = Inr None \<Longrightarrow>
    loop_step env (At_Exif f img, fs, st)
      (At_For, fs, emit (fst (exif_stage (reverse_geo env) f (full_path (folderName env) f) img)) st)"
| exif_record: "snd (exif_stage (reverse_geo env) f (full_path (folderName env) f) img) = Inr (Some r) \<Longrightarrow>
    loop_step env (At_Exif f img, fs, st)
      (At_For, fs, emit [Blank_Line]
         (append_record r (emit (fst (exif_stage (reverse_geo env) f (full_path (folderName env) f) img)) st)))"

code_pred loop_step .

text \<open>The handle that is legitimately open at a statement: the current file's, between
  \<open>open\<close> and \<open>src.close()\<close>.\<close>

fun current_handle :: "env \<Rightarrow> loop_pc \<Rightarrow> string multiset" where
  "current_handle env (At_Image f) = {#full_path (folderName env) f#}"
| "current_handle env (At_Close f img) = {#full_path (folderName env) f#}"
| "current_handle env pc = {#}"

definition loop_inv :: "env \<Rightarrow> loop_state \<Rightarrow> bool" where
  "loop_inv env s =
     (case s of (pc, fs, st) \<Rightarrow>
        parallel_lists st \<and> current_handle env pc \<subseteq># open_handles st \<and>
        (\<forall>p \<in># open_handles st - current_handle env pc. disk env p = Unparseable))"

section \<open>Lemmas\<close>

lemma parallel_lists_frame [simp]:
  "parallel_lists (emit ls st) = parallel_lists st"
  "parallel_lists (open_file p st) = parallel_lists st"
  "parallel_lists (close_file p st) = parallel_lists st"
  "parallel_lists (append_record r st) = parallel_lists st"
  by (simp_all add: parallel_lists_def emit_def open_file_def close_file_def)

lemma open_handles_close_file [simp]: "open_handles (close_file p st) = open_handles st - {#p#}"
  by (simp add: close_file_def)

lemma mset_ball_remove:
  assumes "p \<in># M" "P p" "\<forall>x \<in># M - {#p#}. P x"
  shows "\<forall>x \<in># M. P x"
proof
  fix x assume "x \<in># M"
  show "P x"
  proof (cases "x = p")
    case False
    with \<open>x \<in># M\<close> have "x \<in># M - {#p#}" by (simp add: in_diff_count)
    with assms(3) show ?thesis ..
  qed (use assms(2) in simp)
qed

lemma loop_step_inv: "loop_step env s t \<Longrightarrow> loop_inv env s \<Longrightarrow> loop_inv env t"
proof (induction rule: loop_step.induct)
  case (image_raises f fs st)
  then show ?case
    using mset_ball_remove [of "full_path (folderName env) f" "open_handles st" "\<lambda>p. disk env p = Unparseable"]
    by (simp add: loop_inv_def)
next
  case (close_src f img fs st)
  then show ?case by (auto simp: loop_inv_def)
qed (auto simp: loop_inv_def)

lemma loop_reach_eiffel_close:
  "(loop_step eiffel_env)\<^sup>*\<^sup>* (At_For, [''eiffel.jpg''], batch_init)
     (At_Close ''eiffel.jpg'' eiffel_image, [], open_file (full_path ''photos'' ''eiffel.jpg'') batch_init)"
proof -
  have d: "disk eiffel_env (full_path (folderName eiffel_env) ''eiffel.jpg'') = Image_File eiffel_image"
    "folderName eiffel_env = ''photos''"
    by (simp_all add: eiffel_env_def single_file_env_def)
  have "loop_step eiffel_env (At_For, [''eiffel.jpg''], batch_init) (At_Open ''eiffel.jpg'', [], batch_init)"
    by (rule loop_step.for_next)
  moreover have "loop_step eiffel_env (At_Open ''eiffel.jpg'', [], batch_init)
      (At_Image ''eiffel.jpg'', [], open_file (full_path ''photos'' ''eiffel.jpg'') batch_init)"
    using loop_step.open_ok [of eiffel_env "''eiffel.jpg''" "[]" batch_init] d by simp
  moreover have "loop_step eiffel_env (At_Image ''eiffel.jpg'', [], open_file (full_path ''photos'' ''eiffel.jpg'') batch_init)
      (At_Close ''eiffel.jpg'' eiffel_image, [], open_file (full_path ''photos'' ''eiffel.jpg'') batch_init)"
    using loop_step.image_ok [OF d(1)] d(2) by simp
  ultimately show ?thesis by (meson converse_rtranclp_into_rtranclp r_into_rtranclp)
qed

text \<open>C8. In every state of a run from empty lists the five lists are parallel and the open file handles are accounted for: between open(filename) and src.close() of an image file its handle is open, and every other open handle is that of a file that opened but is not an image.\<close>

theorem loop_machine_handles:
  "(loop_step env)\<^sup>*\<^sup>* (At_For, fs, batch_init) s \<Longrightarrow> loop_inv env s"
proof (induction rule: rtranclp_induct)
  case base
  then show ?case by (simp add: loop_inv_def batch_init_def parallel_lists_def)
next
  case (step s t)
  then show ?case using loop_step_inv by blast
qed

theorem loop_machine_handles_witness:
  "(loop_step eiffel_env)\<^sup>*\<^sup>* (At_For, [''eiffel.jpg''], batch_init)
     (At_Close ''eiffel.jpg'' eiffel_image, [], open_file (full_path ''photos'' ''eiffel.jpg'') batch_init) \<and>
   loop_inv eiffel_env
     (At_Close ''eiffel.jpg'' eiffel_image, [], open_file (full_path ''photos'' ''eiffel.jpg'') batch_init)"
  using loop_reach_eiffel_close loop_machine_handles [OF loop_reach_eiffel_close] by (rule conjI)

end
