(* ===== verification/Spec2Isabelle.thy ===== *)
theory Spec2Isabelle
  imports Pipeline Loop_Machine
begin

text \<open>
  A verification development of \<open>src/main.py\<close> of the repository
  Cos_200_Mapping_Photos: a script that reads the GPS data of the photos in a folder,
  reverse geocodes each position and puts one marker per photo on a map.

  \<^bold>\<open>Parts and how they interact.\<close> \<open>main()\<close> lists the folder, then for each
  file opens it, builds an \<open>exif.Image\<close>, closes it, reads the pixel dimensions and
  the GPS fields, converts them with \<open>decimal_coords\<close> and \<open>round(.., 6)\<close>, asks
  Nominatim for the address and appends the results to five parallel lists; any
  exception skips the file. It then centres a map on the mean coordinates and adds a
  marker with a tooltip per row. The collaborators (file system, \<open>exif\<close>, the
  geocoder, \<open>mapPy\<close>, \<open>pandas\<close>) are modelled as data or, for \<open>mapPy\<close>, from the spec.

  \<^bold>\<open>Theories.\<close>
  \<^item> \<open>Prelude\<close>: the Python semantics used: exceptions as \<open>Inl\<close> of \<open>py_exc\<close>,
    computations that print (\<open>py_out\<close>), attribute reads, indexing, slicing,
    \<open>str.split\<close>, \<open>str.join\<close>, \<open>round\<close> (round half to even on exact reals),
    with the shared lemmas (\<open>py_simps\<close>, joining the parts of a split gives the
    string back and no part holds the separator, rounding bounds).
  \<^item> \<open>Coordinates\<close>: CoordinateConverter, \<open>decimal_coords\<close> (lines 31--35) and
    \<open>rounded_coord\<close> (lines 78--79): the formula and sign rule, the error on short
    input, hemisphere symmetry after rounding, and the range of a rounded coordinate.
  \<^item> \<open>Extractor\<close>: ImageRecordExtractor, the EXIF \<open>try\<close> block (\<open>exif_stage\<close>,
    lines 73--97) over a record of optional EXIF attributes and a geocoder reply, and
    the per-file outcome \<open>extract_photo\<close> of the spec's contract: its value on every
    branch (located, open error, no EXIF, missing attribute, failed geocode).
  \<^item> \<open>Batch\<close>: BatchCollector, one loop iteration \<open>process_file\<close> (lines 60--101)
    on a \<open>batch\<close> record (the five lists, standard output, open file handles) and the
    loop \<open>collect\<close>: refinement to the spec's batch, counting, order, the
    parallel-lists invariant, the handles left open, the output as the per-file outputs
    in listing order, and the shape of the stored addresses and coordinates.
  \<^item> \<open>Tooltip\<close>: AddressFormatter and the marker loop (lines 116--122) over a
    \<open>mapPy\<close> map modelled as a list of markers: what the tooltip holds, that it is
    one line, and that the loop adds one marker per row without raising when the lists
    are parallel.
  \<^item> \<open>Loop_Machine\<close>: the same loop as a small-step machine \<open>loop_step\<close>, one
    transition per statement of an iteration (\<open>open\<close>, \<open>Image(src)\<close>,
    \<open>src.close()\<close>, the \<open>Opening\<close> print, the EXIF \<open>try\<close> block), the exceptions as
    transitions to the next file. It exposes the states between statements, where the
    current file's handle is open, and every reachable state keeps the lists parallel
    and accounts for each open file handle.
  \<^item> \<open>Center\<close>: CenterPointCalculator, \<open>getCenterPoint\<close> of \<open>mapPy\<close>, modelled from
    the spec as the arithmetic mean, \<open>ZeroDivisionError\<close> on no input.
  \<^item> \<open>Pipeline\<close>: the main pipeline. \<open>main_run\<close> is \<open>main()\<close> after the
    listing (loop, data frame of lines 104--106, centre, map and markers);
    \<open>main_program\<close> is the whole of \<open>main()\<close> (lines 39--128) in a \<open>world\<close> of
    \<open>os.listdir\<close>, files and geocoder, with the folder of line 47 and the calls
    \<open>saveMap\<close> and \<open>showMap\<close> of lines 125--128 as output events; \<open>script_entry\<close>
    is the guard of lines 131--132. Its lemmas compute a run from the located records
    of the listing.
  \<^item> This theory: the end-to-end theorems. The map holds one marker per located
    record and is centred inside their region; an empty batch reaches the centre
    computation with empty lists; main ends with an exception only for a missing
    folder (OSError) or an empty batch (ZeroDivisionError), because the data frame and
    the marker loop cannot raise on the lists the loop builds.

  \<^bold>\<open>Modelling choices.\<close> Python floats are exact reals, so binary rounding error is
  not modelled and \<open>round\<close> is exact round-half-to-even. No loop needs fuel: the
  only loops run over finite lists and \<open>str.split\<close> is a \<open>function\<close> with a
  length measure. Printed output is kept as a list of
  \<open>log_line\<close> values, with the printed values but not their formatting.
  \<open>os.listdir\<close> is a field of the \<open>world\<close> (\<open>None\<close> where it raises); the
  folder's files are a function from paths to \<open>file_entry\<close>. Not modelled: the
  imports (lines 21--25), the table layout of the printed data frame (line 106), the
  HTML page \<open>mapPy\<close> writes and the browser it opens, and the internals of
  \<open>exif\<close>, Nominatim and \<open>mapPy\<close>, which are outside the repository. The
  collaborators are total functions: a call that hangs (a geocoder that never answers,
  which the spec says stalls the batch) is not modelled, so no theorem speaks of
  termination. A file handle counts as open until \<open>close()\<close> is called: CPython's
  reference counting, which closes a leaked handle once \<open>src\<close> is rebound, is not
  modelled. \<open>getCenterPoint\<close> raising \<open>ZeroDivisionError\<close> on no input is a choice
  of this model; the spec leaves the empty case undefined.

  \<^bold>\<open>What the development shows about the code.\<close> It keeps the spec's batch
  contract; but the pixel dimensions decide whether a photo is kept, a failed geocode
  is reported as an EXIF read error, a file that opens but is no image keeps its
  handle open, the tooltip drops the address component sixth from the end and is one
  line without the line breaks the spec asks for, and a folder without a located
  photo ends in an exception when the map is centred.
\<close>

section \<open>End-to-end properties\<close>

text \<open>C2. End to end: when at least one photo of the listing is located, the run succeeds and
  its map is centred on the mean latitude and longitude of the located records, has the
  configured zoom, and holds one red marker per located record, in listing order, with
  the record's coordinates, full path and tooltip.\<close>

theorem main_run_located:
  assumes "located_records env fs \<noteq> []"
  shows "\<exists>m. snd (main_run cfg env fs) = Inr m \<and>
           Inr (center_lat m) = getCenterPoint (map rec_lat (located_records env fs)) \<and>
           Inr (center_long m) = getCenterPoint (map rec_long (located_records env fs)) \<and>
           zoom m = zoomLevel cfg \<and>
           markers m = map (record_marker cfg) (located_records env fs)"
  using main_run_eq [OF assms] assms by (simp add: getCenterPoint_def)

theorem main_run_located_witness:
  "located_records eiffel_env [''eiffel.jpg''] \<noteq> [] \<and>
   (\<exists>m. snd (main_run main_config eiffel_env [''eiffel.jpg'']) = Inr m \<and>
      Inr (center_lat m) = getCenterPoint (map rec_lat (located_records eiffel_env [''eiffel.jpg''])) \<and>
      Inr (center_long m) = getCenterPoint (map rec_long (located_records eiffel_env [''eiffel.jpg''])) \<and>
      zoom m = zoomLevel main_config \<and>
      markers m = map (record_marker main_config) (located_records eiffel_env [''eiffel.jpg'']))"
proof -
  have h: "located_records eiffel_env [''eiffel.jpg''] \<noteq> []"
    by (simp add: located_records_def extract_photo_def eiffel_env_def single_file_env_def
        eiffel_image_def eiffel_geocoder_def exif_stage_def rounded_coord_eval py_split_def)
  show ?thesis using h main_run_located [OF h] by (rule conjI)
qed

text \<open>C9. A listing in which no photo is located ends the run with ZeroDivisionError when the
  map is centred: the code has no guard for an empty batch (the behaviour of mapPy's
  getCenterPoint is modelled from the spec as the arithmetic mean).\<close>

theorem main_run_no_photo:
  "located_records env fs = [] \<Longrightarrow> snd (main_run cfg env fs) = Inl ZeroDivisionError"
  by (rule main_run_empty)

theorem main_run_no_photo_witness:
  "located_records (single_file_env Unparseable eiffel_geocoder) [''eiffel.jpg''] = [] \<and>
   snd (main_run main_config (single_file_env Unparseable eiffel_geocoder) [''eiffel.jpg'']) =
     Inl ZeroDivisionError"
proof -
  have h: "located_records (single_file_env Unparseable eiffel_geocoder) [''eiffel.jpg''] = []"
    by (simp add: located_records_def extract_photo_def single_file_env_def)
  show ?thesis using h main_run_no_photo [OF h] by (rule conjI)
qed

text \<open>C10. The map is centred inside the region of its photos: when the run succeeds and every
  located latitude lies in [lo, hi], so does the latitude of the centre; a run on photos
  with valid latitudes centres the map on a valid latitude.\<close>

theorem main_center_within_bounds:
  assumes "snd (main_run cfg env fs) = Inr m"
    and "\<forall>r \<in> set (located_records env fs). lo \<le> rec_lat r \<and> rec_lat r \<le> hi"
  shows "lo \<le> center_lat m \<and> center_lat m \<le> hi"
proof -
  have ne: "located_records env fs \<noteq> []"
    using assms(1) main_run_empty [of env fs cfg] by auto
  have b: "\<forall>x \<in> set (map rec_lat (located_records env fs)). lo \<le> x \<and> x \<le> hi"
    using assms(2) by simp
  obtain c where "getCenterPoint (map rec_lat (located_records env fs)) = Inr c" "lo \<le> c" "c \<le> hi"
    using getCenterPoint_between [OF _ b] ne by auto
  with main_run_eq [OF ne, of cfg] assms(1) ne show ?thesis
    by (simp add: getCenterPoint_def)
qed

theorem main_center_within_bounds_witness:
  "snd (main_run main_config eiffel_env [''eiffel.jpg'']) =
     Inr \<lparr>center_lat = 48.858222, center_long = 2.2945, zoom = 14,
          markers = [\<lparr>m_lat = 48.858222, m_long = 2.2945, m_image = full_path ''photos'' ''eiffel.jpg'',
            m_scale = 0.1, m_color = ''red'',
            m_tooltip = ''eiffel.jpg  Avenue Anatole France Paris Ile-de-France 75007 France''\<rparr>]\<rparr> \<and>
   -90 \<le> (48.858222::real) \<and> (48.858222::real) \<le> 90"
proof -
  have run: "snd (main_run main_config eiffel_env [''eiffel.jpg'']) =
     Inr \<lparr>center_lat = 48.858222, center_long = 2.2945, zoom = 14,
          markers = [\<lparr>m_lat = 48.858222, m_long = 2.2945, m_image = full_path ''photos'' ''eiffel.jpg'',
            m_scale = 0.1, m_color = ''red'',
            m_tooltip = ''eiffel.jpg  Avenue Anatole France Paris Ile-de-France 75007 France''\<rparr>]\<rparr>"
    by (simp add: eiffel_eval)
  have lat: "\<forall>r \<in> set (located_records eiffel_env [''eiffel.jpg'']). -90 \<le> rec_lat r \<and> rec_lat r \<le> 90"
    by (simp add: located_records_def extract_photo_def eiffel_eval)
  show ?thesis
    using run lat main_center_within_bounds [OF run lat] by simp
qed

text \<open>C7. main ends with an exception in exactly two ways: OSError when the folder of line 47 does not exist, and ZeroDivisionError when the folder holds no located photo. Every exception of a file is caught inside the loop, the data frame never raises ValueError and the marker loop never raises IndexError, because the loop keeps the five lists parallel.\<close>

theorem main_program_exceptions:
  "snd (main_program w) = Inl e \<longleftrightarrow>
   (listdir w main_folder = None \<and> e = OSError) \<or>
   (\<exists>fs. listdir w main_folder = Some fs \<and> located_records (world_env w) fs = [] \<and> e = ZeroDivisionError)"
proof (cases "listdir w main_folder")
  case None
  then show ?thesis by (auto simp: main_program_def)
next
  case (Some fs)
  then show ?thesis
    by (cases rule: main_run_snd_cases [of "world_env w" fs main_config]) (auto simp: main_program_listed)
qed

end
